theory Spec2Isabelle
  imports Main "HOL-Library.AList"
begin

section \<open>Data model\<close>

text \<open>
  The structural transforms of \<^verbatim>\<open>packages/slate/src/interfaces/editor/transforms/node.ts\<close>.
  A path is a list of child indices, the empty path addresses the editor (Root).
\<close>

type_synonym path = "nat list"

datatype point = Point (point_path: path) (point_offset: nat)

datatype range = MkRange (anchor: point) (focus: point)

datatype location = LPath path | LPoint point | LRange range

text \<open>
  Property values of a node. \<open>Undefined\<close> is what reading an absent key gives, and what a
  key explicitly set to \<^verbatim>\<open>undefined\<close> holds. \<open>NaN\<close> is the number that is not equal to
  itself; an object or array is known by its reference \<open>Obj r\<close>, which is what the
  comparisons of the source look at.
\<close>

datatype jsval = Null | Undefined | Bool bool | Num int | Str string | NaN | Obj nat

type_synonym props = "(string \<times> jsval) list"

text \<open>
  A node is the editor itself (only ever paired with the empty path), an element with
  its custom properties and children, or a text leaf with its marks and string.
\<close>

datatype node =
    Editor "node list"
  | Element props "node list"
  | Text props string

fun isText :: "node \<Rightarrow> bool" where
  "isText (Text _ _) = True"
| "isText _ = False"

fun isElement :: "node \<Rightarrow> bool" where
  "isElement (Element _ _) = True"
| "isElement _ = False"

fun node_children :: "node \<Rightarrow> node list" where
  "node_children (Editor cs) = cs"
| "node_children (Element _ cs) = cs"
| "node_children (Text _ _) = []"

fun node_props :: "node \<Rightarrow> props" where
  "node_props (Editor _) = []"
| "node_props (Element ps _) = ps"
| "node_props (Text ps _) = ps"

type_synonym node_entry = "node \<times> path"

text \<open>
  \<^verbatim>\<open>NodeMatch\<close>: a kind name, an array of alternatives, or a predicate. The predicates the
  transforms build themselves compare nodes by identity, so they are kept as data:
  \<open>MNode n\<close> is \<^verbatim>\<open>n' => n' === n\<close>, \<open>MChildOf n\<close> is \<^verbatim>\<open>n' => n.children.includes(n')\<close>,
  \<open>MSingleAmong ns\<close> is
  \<^verbatim>\<open>n => ns.includes(n) && Element.isElement(n) && n.children.length === 1\<close>.
\<close>

datatype node_match =
    MText | MInline | MBlock | MVoid | MEditor
  | MList "node_match list"
  | MFun "node \<Rightarrow> bool"
  | MNode node
  | MChildOf node
  | MSingleAmong "node list"

datatype mode = All | Highest

datatype affinity = Forward | Backward | Inward | Outward

text \<open>
  The atomic operations. A \<^verbatim>\<open>split_node\<close> position is a number that can be \<^verbatim>\<open>NaN\<close>
  (\<open>None\<close>), its target is a number or \<^verbatim>\<open>null\<close> (\<open>None\<close>); the \<^verbatim>\<open>newPath\<close> of a
  \<^verbatim>\<open>move_node\<close> is read from a reference with a non-null assertion, so it can be
  \<^verbatim>\<open>null\<close> (\<open>None\<close>) at run time.
\<close>

datatype operation =
    Insert_node path node
  | Remove_node path node
  | Set_node path props props
  | Split_node path "nat option" "nat option" props
  | Merge_node path nat "nat option" props
  | Move_node path "path option"

datatype error =
    LiftDepthError path
  | MergeKindError path node node
  | TypeError
  | PathError
  | NodeError

text \<open>
  A transform either returns, or throws with the editor in the state the throw found it.
\<close>

datatype 's outcome = Returned 's | Threw error 's

fun and_then :: "'s outcome \<Rightarrow> ('s \<Rightarrow> 's outcome) \<Rightarrow> 's outcome" where
  "and_then (Returned s) f = f s"
| "and_then (Threw e s) f = Threw e s"

fun final_state :: "'s outcome \<Rightarrow> 's" where
  "final_state (Returned s) = s"
| "final_state (Threw e s) = s"

section \<open>Path arithmetic\<close>

text \<open>
  Modelled from the spec: the Path/Point/Range arithmetic (\<^verbatim>\<open>Path.parent\<close>, \<^verbatim>\<open>Path.next\<close>,
  \<^verbatim>\<open>Path.common\<close>, \<^verbatim>\<open>Path.isSibling\<close>, \<^verbatim>\<open>Path.compare\<close>, \<^verbatim>\<open>Range.edges\<close>,
  \<^verbatim>\<open>Range.isCollapsed\<close>, \<^verbatim>\<open>Range.intersection\<close>) is an external contract of pure
  functions over position values. The root path has no parent and no next sibling
  (\<open>None\<close>; the callers below throw \<open>PathError\<close>).
\<close>

definition Path_parent :: "path \<Rightarrow> path option" where
  "Path_parent p = (if p = [] then None else Some (butlast p))"

definition Path_next :: "path \<Rightarrow> path option" where
  "Path_next p = (if p = [] then None else Some (butlast p @ [last p + 1]))"

fun Path_common :: "path \<Rightarrow> path \<Rightarrow> path" where
  "Path_common (a # as) (b # bs) = (if a = b then a # Path_common as bs else [])"
| "Path_common _ _ = []"

definition Path_isSibling :: "path \<Rightarrow> path \<Rightarrow> bool" where
  "Path_isSibling p q =
     (length p = length q \<and> p \<noteq> [] \<and> butlast p = butlast q \<and> last p \<noteq> last q)"

text \<open>\<^verbatim>\<open>Path.compare\<close>: -1, 0 or 1; 0 also when one path is an ancestor of the other.\<close>

fun Path_compare :: "path \<Rightarrow> path \<Rightarrow> int" where
  "Path_compare (a # as) (b # bs) =
     (if a < b then - 1 else if a > b then 1 else Path_compare as bs)"
| "Path_compare _ _ = 0"

definition Point_compare :: "point \<Rightarrow> point \<Rightarrow> int" where
  "Point_compare a b =
     (let r = Path_compare (point_path a) (point_path b)
      in if r = 0
         then (if point_offset a < point_offset b then - 1
               else if point_offset a > point_offset b then 1 else 0)
         else r)"

definition Range_isCollapsed :: "range \<Rightarrow> bool" where
  "Range_isCollapsed r = (anchor r = focus r)"

definition Range_isBackward :: "range \<Rightarrow> bool" where
  "Range_isBackward r = (Point_compare (anchor r) (focus r) = 1)"

definition Range_edges :: "range \<Rightarrow> point \<times> point" where
  "Range_edges r = (if Range_isBackward r then (focus r, anchor r) else (anchor r, focus r))"

definition Range_intersection :: "range \<Rightarrow> range \<Rightarrow> range option" where
  "Range_intersection r another =
     (let (s1, e1) = Range_edges r; (s2, e2) = Range_edges another;
          start = (if Point_compare s1 s2 = - 1 then s2 else s1);
          end' = (if Point_compare e1 e2 = - 1 then e1 else e2)
      in if Point_compare end' start = - 1 then None else Some (MkRange start end'))"

text \<open>\<^verbatim>\<open>xs.slice(0, d)\<close> of JavaScript, where a negative \<open>d\<close> counts from the end.\<close>

definition js_slice0 :: "'a list \<Rightarrow> int \<Rightarrow> 'a list" where
  "js_slice0 xs d = (if 0 \<le> d then take (nat d) xs else take (length xs - nat (- d)) xs)"

text \<open>\<^verbatim>\<open>xs[i]\<close> of JavaScript: \<^verbatim>\<open>undefined\<close> (\<open>None\<close>) out of range.\<close>

definition js_index :: "'a list \<Rightarrow> int \<Rightarrow> 'a option" where
  "js_index xs i = (if 0 \<le> i \<and> nat i < length xs then Some (xs ! nat i) else None)"

section \<open>The editor and its external collaborators\<close>

text \<open>
  The editor keeps the log of applied operations (\<^verbatim>\<open>editor.operations\<close>, to which
  \<^verbatim>\<open>editor.apply\<close> pushes), the flag that says whether it is normalising, and the rest
  of its state \<open>doc\<close>: the tree, the selection and the registry of live references,
  which only the collaborators below read and write.
\<close>

record 'd editor =
  doc :: 'd
  operations :: "operation list"
  normalizing :: bool

record options =
  opt_at :: "location option"
  opt_match :: "node_match option"
  opt_mode :: "mode option"
  opt_hanging :: "bool option"
  opt_voids :: "bool option"
  opt_split :: "bool option"
  opt_always :: "bool option"
  opt_height :: "int option"

definition no_options :: options where
  "no_options = \<lparr>opt_at = None, opt_match = None, opt_mode = None, opt_hanging = None,
     opt_voids = None, opt_split = None, opt_always = None, opt_height = None\<rparr>"

text \<open>
  The query layer, the reference tracker, the apply engine and the text and selection
  transforms are not part of \<^verbatim>\<open>node.ts\<close>; the transforms take them as the parameter
  \<open>E\<close>. A query whose result the source uses unchecked and which throws on a bad path
  (\<^verbatim>\<open>Editor.node\<close>, \<^verbatim>\<open>Editor.point\<close>) returns \<open>None\<close> for the throw; \<^verbatim>\<open>Editor.end\<close> and
  \<^verbatim>\<open>Editor.after\<close>, whose results the source tests, return \<open>None\<close> for no point. A
  reference is a handle (a number); \<^verbatim>\<open>ref.current\<close> and \<^verbatim>\<open>ref.unref()\<close> give \<open>None\<close> for
  \<^verbatim>\<open>null\<close>.
\<close>

record 'd api =
  transform :: "operation \<Rightarrow> 'd \<Rightarrow> 'd"
  selection :: "'d \<Rightarrow> range option"
  children :: "'d \<Rightarrow> node list"
  isInline :: "node \<Rightarrow> bool"
  isVoid :: "node \<Rightarrow> bool"
  Editor_normalize :: "'d editor \<Rightarrow> 'd editor"
  Editor_pathRef :: "path \<Rightarrow> 'd \<Rightarrow> nat \<times> 'd"
  Editor_pathRef_current :: "nat \<Rightarrow> 'd \<Rightarrow> path option"
  Editor_pathRef_unref :: "nat \<Rightarrow> 'd \<Rightarrow> path option \<times> 'd"
  Editor_pointRef :: "point \<Rightarrow> affinity option \<Rightarrow> 'd \<Rightarrow> nat \<times> 'd"
  Editor_pointRef_current :: "nat \<Rightarrow> 'd \<Rightarrow> point option"
  Editor_pointRef_unref :: "nat \<Rightarrow> 'd \<Rightarrow> point option \<times> 'd"
  Editor_rangeRef :: "range \<Rightarrow> affinity \<Rightarrow> 'd \<Rightarrow> nat \<times> 'd"
  Editor_rangeRef_unref :: "nat \<Rightarrow> 'd \<Rightarrow> range option \<times> 'd"
  Editor_node :: "'d \<Rightarrow> path \<Rightarrow> node option"
  Editor_match :: "'d \<Rightarrow> path \<Rightarrow> node_match \<Rightarrow> bool \<Rightarrow> node_entry option"
  Editor_previous :: "'d \<Rightarrow> location \<Rightarrow> node_match \<Rightarrow> bool \<Rightarrow> node_entry option"
  Editor_nodes :: "'d \<Rightarrow> location \<Rightarrow> node_match \<Rightarrow> mode \<Rightarrow> bool \<Rightarrow> node_entry list"
  Editor_levels :: "'d \<Rightarrow> path \<Rightarrow> bool \<Rightarrow> bool \<Rightarrow> node_entry list"
  Editor_point :: "'d \<Rightarrow> path \<Rightarrow> point option"
  Editor_end :: "'d \<Rightarrow> path \<Rightarrow> point option"
  Editor_after :: "'d \<Rightarrow> path \<Rightarrow> point option"
  Editor_range :: "'d \<Rightarrow> path \<Rightarrow> path \<Rightarrow> range"
  Editor_isEnd :: "'d \<Rightarrow> point \<Rightarrow> path \<Rightarrow> bool"
  Editor_isEdge :: "'d \<Rightarrow> point \<Rightarrow> path \<Rightarrow> bool"
  Editor_isEmpty :: "node \<Rightarrow> bool"
  Editor_unhangRange :: "'d \<Rightarrow> range \<Rightarrow> range"
  Editor_delete :: "range \<Rightarrow> 'd editor \<Rightarrow> 'd editor"
  Editor_select :: "location \<Rightarrow> 'd editor \<Rightarrow> 'd editor"

text \<open>\<^verbatim>\<open>editor.apply(op)\<close>: the operation joins the log and the engine updates the rest.\<close>

definition editor_apply :: "'d api \<Rightarrow> operation \<Rightarrow> 'd editor \<Rightarrow> 'd editor" where
  "editor_apply E op ed =
     ed\<lparr>doc := transform E op (doc ed), operations := operations ed @ [op]\<rparr>"

text \<open>
  \<^verbatim>\<open>Editor.withoutNormalizing(editor, fn)\<close>: the flag is saved and cleared, \<open>fn\<close> runs,
  the flag is restored and \<^verbatim>\<open>Editor.normalize\<close> runs. A throw inside \<open>fn\<close> skips the rest.
  Modelled from the spec: normalisation is deferred while a batch scope is open and runs
  once, when the outermost scope closes; so \<^verbatim>\<open>Editor.normalize\<close> does nothing while the
  restored flag is off.
\<close>

definition withoutNormalizing ::
  "'d api \<Rightarrow> ('d editor \<Rightarrow> 'd editor outcome) \<Rightarrow> 'd editor \<Rightarrow> 'd editor outcome" where
  "withoutNormalizing E fn ed =
     (let value = normalizing ed
      in and_then (fn (ed\<lparr>normalizing := False\<rparr>))
           (\<lambda>ed'. Returned
              (if value then Editor_normalize E (ed'\<lparr>normalizing := value\<rparr>)
               else ed'\<lparr>normalizing := value\<rparr>)))"

text \<open>\<^verbatim>\<open>matchPath\<close>: the identity match of the node at a path; \<^verbatim>\<open>Editor.node\<close> may throw.\<close>

definition matchPath :: "'d api \<Rightarrow> 'd \<Rightarrow> path \<Rightarrow> node_match option" where
  "matchPath E d p = map_option MNode (Editor_node E d p)"

text \<open>
  The default \<^verbatim>\<open>match = Path.isPath(at) ? matchPath(editor, at) : 'block'\<close> shared by
  the transforms.
\<close>

definition default_match :: "'d api \<Rightarrow> 'd \<Rightarrow> location \<Rightarrow> node_match option" where
  "default_match E d at' = (case at' of LPath p \<Rightarrow> matchPath E d p | _ \<Rightarrow> Some MBlock)"

text \<open>\<^verbatim>\<open>at = editor.selection\<close> as the default of an omitted \<^verbatim>\<open>at\<close>.\<close>

definition at_or_selection :: "'d api \<Rightarrow> options \<Rightarrow> 'd \<Rightarrow> location option" where
  "at_or_selection E opts d =
     (case opt_at opts of None \<Rightarrow> map_option LRange (selection E d) | Some a \<Rightarrow> Some a)"

text \<open>\<^verbatim>\<open>Array.from(entries, ([, p]) => Editor.pathRef(editor, p))\<close>.\<close>

fun pathRefs_of :: "'d api \<Rightarrow> node_entry list \<Rightarrow> 'd \<Rightarrow> nat list \<times> 'd" where
  "pathRefs_of E [] d = ([], d)"
| "pathRefs_of E ((n, p) # es) d =
     (let (r, d1) = Editor_pathRef E p d; (rs, d2) = pathRefs_of E es d1 in (r # rs, d2))"

section \<open>moveNodes and removeNodes\<close>

fun moveNodes_loop :: "'d api \<Rightarrow> nat \<Rightarrow> nat list \<Rightarrow> 'd editor \<Rightarrow> 'd editor outcome" where
  "moveNodes_loop E toRef [] ed = Returned ed"
| "moveNodes_loop E toRef (pathRef # rest) ed =
     (case Editor_pathRef_unref E pathRef (doc ed) of
        (None, d1) \<Rightarrow> Threw TypeError (ed\<lparr>doc := d1\<rparr>)
      | (Some path, d1) \<Rightarrow>
          (let ed1 = ed\<lparr>doc := d1\<rparr>;
               newPath = Editor_pathRef_current E toRef d1
           in moveNodes_loop E toRef rest
                (if path \<noteq> [] then editor_apply E (Move_node path newPath) ed1 else ed1)))"

definition moveNodes_body :: "'d api \<Rightarrow> options \<Rightarrow> path \<Rightarrow> 'd editor \<Rightarrow> 'd editor outcome" where
  "moveNodes_body E opts to ed =
     (let mode = (case opt_mode opts of None \<Rightarrow> Highest | Some m \<Rightarrow> m);
          voids = (case opt_voids opts of None \<Rightarrow> False | Some v \<Rightarrow> v)
      in case at_or_selection E opts (doc ed) of
           None \<Rightarrow> Returned ed
         | Some at' \<Rightarrow>
            (case (case opt_match opts of None \<Rightarrow> default_match E (doc ed) at' | Some m \<Rightarrow> Some m) of
               None \<Rightarrow> Threw NodeError ed
             | Some match \<Rightarrow>
                (let (toRef, d1) = Editor_pathRef E to (doc ed);
                     targets = Editor_nodes E d1 at' match mode voids;
                     (pathRefs, d2) = pathRefs_of E targets d1
                 in and_then (moveNodes_loop E toRef pathRefs (ed\<lparr>doc := d2\<rparr>))
                      (\<lambda>ed'. Returned (ed'\<lparr>doc := snd (Editor_pathRef_unref E toRef (doc ed'))\<rparr>)))))"

definition moveNodes :: "'d api \<Rightarrow> options \<Rightarrow> path \<Rightarrow> 'd editor \<Rightarrow> 'd editor outcome" where
  "moveNodes E opts to = withoutNormalizing E (moveNodes_body E opts to)"

text \<open>
  In \<^verbatim>\<open>removeNodes\<close> a reference that resolved to \<^verbatim>\<open>null\<close> is skipped (\<^verbatim>\<open>if (path)\<close>);
  \<^verbatim>\<open>Editor.node\<close> throws when the path no longer addresses a node.
\<close>

fun removeNodes_loop :: "'d api \<Rightarrow> nat list \<Rightarrow> 'd editor \<Rightarrow> 'd editor outcome" where
  "removeNodes_loop E [] ed = Returned ed"
| "removeNodes_loop E (pathRef # rest) ed =
     (case Editor_pathRef_unref E pathRef (doc ed) of
        (None, d1) \<Rightarrow> removeNodes_loop E rest (ed\<lparr>doc := d1\<rparr>)
      | (Some path, d1) \<Rightarrow>
          (case Editor_node E d1 path of
             None \<Rightarrow> Threw NodeError (ed\<lparr>doc := d1\<rparr>)
           | Some node \<Rightarrow>
               removeNodes_loop E rest (editor_apply E (Remove_node path node) (ed\<lparr>doc := d1\<rparr>))))"

definition removeNodes_body :: "'d api \<Rightarrow> options \<Rightarrow> 'd editor \<Rightarrow> 'd editor outcome" where
  "removeNodes_body E opts ed =
     (let hanging = (case opt_hanging opts of None \<Rightarrow> False | Some h \<Rightarrow> h);
          voids = (case opt_voids opts of None \<Rightarrow> False | Some v \<Rightarrow> v)
      in case at_or_selection E opts (doc ed) of
           None \<Rightarrow> Returned ed
         | Some at0 \<Rightarrow>
            (case (case opt_match opts of None \<Rightarrow> default_match E (doc ed) at0 | Some m \<Rightarrow> Some m) of
               None \<Rightarrow> Threw NodeError ed
             | Some match \<Rightarrow>
                (let mode = Highest;
                     at' = (case at0 of
                              LRange r \<Rightarrow> if \<not> hanging then LRange (Editor_unhangRange E (doc ed) r) else at0
                            | _ \<Rightarrow> at0);
                     depths = Editor_nodes E (doc ed) at' match mode voids;
                     (pathRefs, d1) = pathRefs_of E depths (doc ed)
                 in removeNodes_loop E pathRefs (ed\<lparr>doc := d1\<rparr>))))"

definition removeNodes :: "'d api \<Rightarrow> options \<Rightarrow> 'd editor \<Rightarrow> 'd editor outcome" where
  "removeNodes E opts = withoutNormalizing E (removeNodes_body E opts)"

section \<open>insertNodes and splitNodes\<close>

fun insertNodes_loop :: "'d api \<Rightarrow> path \<Rightarrow> nat \<Rightarrow> node list \<Rightarrow> 'd editor \<Rightarrow> 'd editor" where
  "insertNodes_loop E parentPath index [] ed = ed"
| "insertNodes_loop E parentPath index (node # rest) ed =
     insertNodes_loop E parentPath (index + 1) rest
       (editor_apply E (Insert_node (parentPath @ [index]) node) ed)"

text \<open>
  \<^verbatim>\<open>insertNodes\<close> from \<^verbatim>\<open>const parentPath = Path.parent(at)\<close> to its end, where \<open>at\<close> is a
  path: the guard against a void parent, the insertions at consecutive indices, and the
  selection update.
\<close>

definition insertNodes_at_path ::
  "'d api \<Rightarrow> node list \<Rightarrow> path \<Rightarrow> bool \<Rightarrow> bool \<Rightarrow> 'd editor \<Rightarrow> 'd editor outcome" where
  "insertNodes_at_path E nodes at' voids select ed =
     (case Path_parent at' of
        None \<Rightarrow> Threw PathError ed
      | Some parentPath \<Rightarrow>
          (let index = last at'
           in if \<not> voids \<and> Editor_match E (doc ed) parentPath MVoid False \<noteq> None
              then Returned ed
              else (let ed1 = insertNodes_loop E parentPath index nodes ed
                    in if select
                       then (case Editor_end E (doc ed1) at' of
                               None \<Rightarrow> Returned ed1
                             | Some point \<Rightarrow> Returned (Editor_select E (LPoint point) ed1))
                       else Returned ed1)))"

text \<open>
  \<^verbatim>\<open>deleteRange\<close>: a collapsed range is its anchor; otherwise the content is deleted
  and the tracked end point is the result (\<^verbatim>\<open>null\<close> when the reference is gone).
\<close>

definition deleteRange :: "'d api \<Rightarrow> range \<Rightarrow> 'd editor \<Rightarrow> point option \<times> 'd editor" where
  "deleteRange E r ed =
     (if Range_isCollapsed r then (Some (anchor r), ed)
      else (let (start, end') = Range_edges r;
                (pointRef, d1) = Editor_pointRef E end' None (doc ed);
                ed1 = Editor_delete E r (ed\<lparr>doc := d1\<rparr>);
                (po, d2) = Editor_pointRef_unref E pointRef (doc ed1)
            in (po, ed1\<lparr>doc := d2\<rparr>)))"

text \<open>
  The loop of \<^verbatim>\<open>splitNodes\<close> over the levels, deepest first. \<open>position\<close> and \<open>target\<close>
  are the running counters; the loop ends at a level above the highest match, at the
  Root, or at a void element. Reading \<^verbatim>\<open>beforeRef.current!\<close> as \<^verbatim>\<open>null\<close> throws.
\<close>

fun splitNodes_loop ::
  "'d api \<Rightarrow> bool \<Rightarrow> bool \<Rightarrow> nat \<Rightarrow> path \<Rightarrow> nat option \<Rightarrow> nat option \<Rightarrow> node_entry list
     \<Rightarrow> 'd editor \<Rightarrow> 'd editor outcome" where
  "splitNodes_loop E voids always beforeRef highestPath position target [] ed = Returned ed"
| "splitNodes_loop E voids always beforeRef highestPath position target ((node, path) # rest) ed =
     (if length path < length highestPath \<or> path = []
         \<or> (\<not> voids \<and> isElement node \<and> isVoid E node)
      then Returned ed
      else (case Editor_pointRef_current E beforeRef (doc ed) of
              None \<Rightarrow> Threw TypeError ed
            | Some point \<Rightarrow>
                (let isEnd = Editor_isEnd E (doc ed) point path;
                     split = (always \<or> \<not> Editor_isEdge E (doc ed) point path);
                     ed1 = (if split
                            then editor_apply E (Split_node path position target (node_props node)) ed
                            else ed)
                 in splitNodes_loop E voids always beforeRef highestPath
                      (Some (last path + (if split \<or> isEnd then 1 else 0))) position rest ed1)))"

text \<open>
  The void branch of \<^verbatim>\<open>splitNodes\<close> (\<^verbatim>\<open>if (!voids && voidMatch)\<close>): the point moves after
  an inline void, an empty text being inserted there when nothing follows, and the
  height is recomputed from the void's depth. The nested \<^verbatim>\<open>Editor.insertNodes\<close> is given
  a path, so it is \<open>insertNodes_at_path\<close> inside its own \<^verbatim>\<open>withoutNormalizing\<close>.
\<close>

definition splitNodes_void ::
  "'d api \<Rightarrow> bool \<Rightarrow> point \<Rightarrow> int \<Rightarrow> bool \<Rightarrow> 'd editor
     \<Rightarrow> (error \<times> 'd editor) + (point \<times> int \<times> bool \<times> 'd editor)" where
  "splitNodes_void E voids at' height always ed =
     (let voidMatch = Editor_match E (doc ed) (point_path at') MVoid False
      in case (if voids then None else voidMatch) of
           None \<Rightarrow> Inr (at', height, always, ed)
         | Some (voidNode, voidPath) \<Rightarrow>
            (case (if isElement voidNode \<and> isInline E voidNode
                   then (case Editor_after E (doc ed) voidPath of
                           Some after \<Rightarrow> Inr (after, ed)
                         | None \<Rightarrow>
                            (case Path_next voidPath of
                               None \<Rightarrow> Inl (PathError, ed)
                             | Some afterPath \<Rightarrow>
                                (case withoutNormalizing E
                                        (insertNodes_at_path E [Text [] ''''] afterPath voids False) ed of
                                   Threw e ed1 \<Rightarrow> Inl (e, ed1)
                                 | Returned ed1 \<Rightarrow>
                                    (case Editor_point E (doc ed1) afterPath of
                                       None \<Rightarrow> Inl (NodeError, ed1)
                                     | Some after \<Rightarrow> Inr (after, ed1)))))
                   else Inr (at', ed)) of
               Inl x \<Rightarrow> Inl x
             | Inr (at2, ed2) \<Rightarrow>
                 Inr (at2, int (length (point_path at2)) - int (length voidPath) + 1, True, ed2)))"

text \<open>
  Where the loop of \<^verbatim>\<open>splitNodes\<close> starts: \<^verbatim>\<open>depth = at.path.length - height\<close>,
  \<^verbatim>\<open>lowestPath = at.path.slice(0, depth)\<close> and
  \<^verbatim>\<open>position = height === 0 ? at.offset : at.path[depth] + nudge\<close> with \<^verbatim>\<open>nudge = 0\<close>.
\<close>

definition splitNodes_depth :: "point \<Rightarrow> int \<Rightarrow> int" where
  "splitNodes_depth at' height = int (length (point_path at')) - height"

definition splitNodes_lowestPath :: "point \<Rightarrow> int \<Rightarrow> path" where
  "splitNodes_lowestPath at' height = js_slice0 (point_path at') (splitNodes_depth at' height)"

definition splitNodes_position :: "point \<Rightarrow> int \<Rightarrow> nat option" where
  "splitNodes_position at' height =
     (if height = 0 then Some (point_offset at')
      else js_index (point_path at') (splitNodes_depth at' height))"

text \<open>
  \<^verbatim>\<open>splitNodes\<close> from \<^verbatim>\<open>const beforeRef = ...\<close> to its end, where \<open>at\<close> is a point.
  \<open>at_given\<close> is \<^verbatim>\<open>options.at != null\<close>.
\<close>

definition splitNodes_at_point ::
  "'d api \<Rightarrow> bool \<Rightarrow> bool \<Rightarrow> node_match \<Rightarrow> int \<Rightarrow> bool \<Rightarrow> point \<Rightarrow> 'd editor
     \<Rightarrow> 'd editor outcome" where
  "splitNodes_at_point E at_given voids match height always at' ed =
     (let (beforeRef, d1) = Editor_pointRef E at' (Some Backward) (doc ed);
          ed1 = ed\<lparr>doc := d1\<rparr>
      in case Editor_match E d1 (point_path at') match voids of
           None \<Rightarrow> Returned ed1
         | Some (highestNode, highestPath) \<Rightarrow>
            (case splitNodes_void E voids at' height always ed1 of
               Inl (e, ed2) \<Rightarrow> Threw e ed2
             | Inr (at2, height2, always2, ed2) \<Rightarrow>
                (let (afterRef, d3) = Editor_pointRef E at2 None (doc ed2);
                     ed3 = ed2\<lparr>doc := d3\<rparr>;
                     lowestPath = splitNodes_lowestPath at2 height2;
                     position = splitNodes_position at2 height2
                 in and_then
                      (splitNodes_loop E voids always2 beforeRef highestPath position None
                         (Editor_levels E d3 lowestPath True voids) ed3)
                      (\<lambda>ed4. and_then
                         (if at_given then Returned ed4
                          else (case (case Editor_pointRef_current E afterRef (doc ed4) of
                                        Some p \<Rightarrow> Some p
                                      | None \<Rightarrow> Editor_end E (doc ed4) []) of
                                  None \<Rightarrow> Threw TypeError ed4
                                | Some point \<Rightarrow> Returned (Editor_select E (LPoint point) ed4)))
                         (\<lambda>ed5. let d6 = snd (Editor_pointRef_unref E beforeRef (doc ed5));
                                    d7 = snd (Editor_pointRef_unref E afterRef d6)
                                in Returned (ed5\<lparr>doc := d7\<rparr>))))))"

definition splitNodes_body :: "'d api \<Rightarrow> options \<Rightarrow> 'd editor \<Rightarrow> 'd editor outcome" where
  "splitNodes_body E opts ed =
     (let match = (case opt_match opts of None \<Rightarrow> MBlock | Some m \<Rightarrow> m);
          height = (case opt_height opts of None \<Rightarrow> 0 | Some h \<Rightarrow> h);
          always = (case opt_always opts of None \<Rightarrow> False | Some a \<Rightarrow> a);
          voids = (case opt_voids opts of None \<Rightarrow> False | Some v \<Rightarrow> v);
          at_given = (opt_at opts \<noteq> None)
      in case at_or_selection E opts (doc ed) of
           None \<Rightarrow> Returned ed
         | Some (LRange r) \<Rightarrow>
            (let (po, ed1) = deleteRange E r ed
             in case po of
                  None \<Rightarrow> Returned ed1
                | Some at' \<Rightarrow> splitNodes_at_point E at_given voids match height always at' ed1)
         | Some (LPath path) \<Rightarrow>
            (case Editor_point E (doc ed) path of
               None \<Rightarrow> Threw NodeError ed
             | Some point \<Rightarrow>
                (case Path_parent path of
                   None \<Rightarrow> Threw PathError ed
                 | Some parentPath \<Rightarrow>
                    (case Editor_node E (doc ed) parentPath of
                       None \<Rightarrow> Threw NodeError ed
                     | Some parent \<Rightarrow>
                        splitNodes_at_point E at_given voids (MNode parent)
                          (int (length (point_path point)) - int (length path) + 1)
                          True point ed)))
         | Some (LPoint at') \<Rightarrow> splitNodes_at_point E at_given voids match height always at' ed)"

definition splitNodes :: "'d api \<Rightarrow> options \<Rightarrow> 'd editor \<Rightarrow> 'd editor outcome" where
  "splitNodes E opts = withoutNormalizing E (splitNodes_body E opts)"

text \<open>
  \<^verbatim>\<open>insertNodes\<close>, the branch \<^verbatim>\<open>if (Range.isRange(at))\<close>: the range is unhung, then
  collapsed, its content being deleted first when it is not collapsed already.
\<close>

definition insertNodes_range ::
  "'d api \<Rightarrow> bool \<Rightarrow> location \<Rightarrow> 'd editor \<Rightarrow> location option \<times> 'd editor" where
  "insertNodes_range E hanging at0 ed =
     (case at0 of
        LRange r0 \<Rightarrow>
          (let r = (if \<not> hanging then Editor_unhangRange E (doc ed) r0 else r0)
           in if Range_isCollapsed r then (Some (LPoint (anchor r)), ed)
              else (let (start, end') = Range_edges r;
                        (pointRef, d1) = Editor_pointRef E end' None (doc ed);
                        ed1 = Editor_delete E r (ed\<lparr>doc := d1\<rparr>);
                        (po, d2) = Editor_pointRef_unref E pointRef (doc ed1)
                    in (map_option LPoint po, ed1\<lparr>doc := d2\<rparr>)))
      | _ \<Rightarrow> (Some at0, ed))"

text \<open>
  \<^verbatim>\<open>insertNodes\<close>, the branch \<^verbatim>\<open>if (Point.isPoint(at))\<close>: without a match the transform
  returns; with one the tree is split at the point (\<^verbatim>\<open>splitNodes\<close> is called with
  \<^verbatim>\<open>at\<close> and \<^verbatim>\<open>match\<close> only) and the insertion path is the tracked path of the match,
  or its next sibling when the point was at the end of the match.
\<close>

definition insertNodes_point ::
  "'d api \<Rightarrow> node \<Rightarrow> node_match option \<Rightarrow> point \<Rightarrow> 'd editor
     \<Rightarrow> 'd editor outcome + (path \<times> 'd editor)" where
  "insertNodes_point E node match0 at' ed =
     (let match = (case match0 of
                     Some m \<Rightarrow> m
                   | None \<Rightarrow> if isText node then MText
                             else if isInline E node then MList [MInline, MText]
                             else MBlock)
      in case Editor_match E (doc ed) (point_path at') match False of
           None \<Rightarrow> Inl (Returned ed)
         | Some (matchNode, matchPath') \<Rightarrow>
            (let (pathRef, d1) = Editor_pathRef E matchPath' (doc ed);
                 isAtEnd = Editor_isEnd E d1 at' matchPath'
             in case splitNodes E (no_options\<lparr>opt_at := Some (LPoint at'), opt_match := Some match\<rparr>)
                       (ed\<lparr>doc := d1\<rparr>) of
                  Threw e ed2 \<Rightarrow> Inl (Threw e ed2)
                | Returned ed2 \<Rightarrow>
                   (case Editor_pathRef_unref E pathRef (doc ed2) of
                      (None, d3) \<Rightarrow> Inl (Threw TypeError (ed2\<lparr>doc := d3\<rparr>))
                    | (Some path, d3) \<Rightarrow>
                        if isAtEnd
                        then (case Path_next path of
                                None \<Rightarrow> Inl (Threw PathError (ed2\<lparr>doc := d3\<rparr>))
                              | Some nextPath \<Rightarrow> Inr (nextPath, ed2\<lparr>doc := d3\<rparr>))
                        else Inr (path, ed2\<lparr>doc := d3\<rparr>))))"

text \<open>
  The default location of \<^verbatim>\<open>insertNodes\<close>: the selection, else the end of the
  document, else the path \<open>[0]\<close>; the flag says that the selection is updated afterwards.
  Without an end point \<open>at\<close> stays undefined, and \<^verbatim>\<open>Path.parent(at)\<close> throws on it.
\<close>

definition insertNodes_default_at :: "'d api \<Rightarrow> options \<Rightarrow> 'd \<Rightarrow> error + (location \<times> bool)" where
  "insertNodes_default_at E opts d =
     (case opt_at opts of
        Some a \<Rightarrow> Inr (a, False)
      | None \<Rightarrow>
         (case selection E d of
            Some r \<Rightarrow> Inr (LRange r, True)
          | None \<Rightarrow>
             if children E d \<noteq> []
             then (case Editor_end E d [] of None \<Rightarrow> Inl TypeError | Some p \<Rightarrow> Inr (LPoint p, True))
             else Inr (LPath [0], True)))"

text \<open>
  \<^verbatim>\<open>insertNodes\<close> up to \<^verbatim>\<open>const parentPath = Path.parent(at)\<close>, for a non-empty list
  of nodes: an early return or throw, or the path \<open>at\<close> has become, the \<open>select\<close> flag and
  the editor as the deletion and the split have left it.
\<close>

definition insertNodes_resolve ::
  "'d api \<Rightarrow> node list \<Rightarrow> options \<Rightarrow> 'd editor
     \<Rightarrow> 'd editor outcome + (path \<times> bool \<times> 'd editor)" where
  "insertNodes_resolve E nodes opts ed =
     (let hanging = (case opt_hanging opts of None \<Rightarrow> False | Some h \<Rightarrow> h)
      in case insertNodes_default_at E opts (doc ed) of
           Inl e \<Rightarrow> Inl (Threw e ed)
         | Inr (at0, select) \<Rightarrow>
            (let (at1, ed1) = insertNodes_range E hanging at0 ed
             in case at1 of
                  None \<Rightarrow> Inl (Threw TypeError ed1)
                | Some (LRange r) \<Rightarrow> Inl (Threw TypeError ed1)
                | Some (LPath p) \<Rightarrow> Inr (p, select, ed1)
                | Some (LPoint pt) \<Rightarrow>
                   (case insertNodes_point E (hd nodes) (opt_match opts) pt ed1 of
                      Inl r \<Rightarrow> Inl r
                    | Inr (p, ed2) \<Rightarrow> Inr (p, select, ed2))))"

definition insertNodes_body :: "'d api \<Rightarrow> node list \<Rightarrow> options \<Rightarrow> 'd editor \<Rightarrow> 'd editor outcome" where
  "insertNodes_body E nodes opts ed =
     (let voids = (case opt_voids opts of None \<Rightarrow> False | Some v \<Rightarrow> v)
      in if nodes = [] then Returned ed
         else (case insertNodes_resolve E nodes opts ed of
                 Inl r \<Rightarrow> r
               | Inr (p, select, ed2) \<Rightarrow> insertNodes_at_path E nodes p voids select ed2))"

definition insertNodes :: "'d api \<Rightarrow> node list \<Rightarrow> options \<Rightarrow> 'd editor \<Rightarrow> 'd editor outcome" where
  "insertNodes E nodes opts = withoutNormalizing E (insertNodes_body E nodes opts)"

section \<open>setNodes and unsetNodes\<close>

text \<open>\<^verbatim>\<open>node[k]\<close> for a custom key: \<^verbatim>\<open>undefined\<close> when the node does not have it.\<close>

definition js_get :: "props \<Rightarrow> string \<Rightarrow> jsval" where
  "js_get obj k = (case map_of obj k of None \<Rightarrow> Undefined | Some v \<Rightarrow> v)"

text \<open>
  \<^verbatim>\<open>a !== b\<close>: values differ unless they are the same primitive or the same reference,
  and \<open>NaN\<close> differs from everything, itself included.
\<close>

definition strict_neq :: "jsval \<Rightarrow> jsval \<Rightarrow> bool" where
  "strict_neq a b = (a \<noteq> b \<or> a = NaN)"

text \<open>
  The loop \<^verbatim>\<open>for (const k in props)\<close> of \<^verbatim>\<open>setNodes\<close>, building \<^verbatim>\<open>properties\<close> and
  \<^verbatim>\<open>newProperties\<close>; \<^verbatim>\<open>obj[k] = v\<close> is \<open>AList.update\<close>.
\<close>

fun setNodes_delta :: "props \<Rightarrow> node \<Rightarrow> props \<times> props \<Rightarrow> props \<times> props" where
  "setNodes_delta [] node acc = acc"
| "setNodes_delta ((k, v) # rest) node (properties, newProperties) =
     (if k = ''children'' \<or> k = ''text'' then setNodes_delta rest node (properties, newProperties)
      else if strict_neq v (js_get (node_props node) k)
      then setNodes_delta rest node
             (AList.update k (js_get (node_props node) k) properties, AList.update k v newProperties)
      else setNodes_delta rest node (properties, newProperties))"

definition setNodes_step :: "'d api \<Rightarrow> props \<Rightarrow> node_entry \<Rightarrow> 'd editor \<Rightarrow> 'd editor" where
  "setNodes_step E props entry ed =
     (let (node, path) = entry
      in if path = [] then ed
         else (let (properties, newProperties) = setNodes_delta props node ([], [])
               in if newProperties \<noteq> []
                  then editor_apply E (Set_node path properties newProperties) ed
                  else ed))"

text \<open>
  The entries come from the generator \<^verbatim>\<open>Editor.nodes\<close>, which the source consumes while
  it applies \<^verbatim>\<open>set_node\<close> operations; they are taken here as the list it yields.
\<close>

fun setNodes_loop :: "'d api \<Rightarrow> props \<Rightarrow> node_entry list \<Rightarrow> 'd editor \<Rightarrow> 'd editor" where
  "setNodes_loop E props [] ed = ed"
| "setNodes_loop E props (entry # rest) ed = setNodes_loop E props rest (setNodes_step E props entry ed)"

text \<open>
  The branch \<^verbatim>\<open>if (split && Range.isRange(at))\<close> shared by \<^verbatim>\<open>setNodes\<close> and
  \<^verbatim>\<open>wrapNodes\<close>: both edges are split, the end first, and the tracked range replaces
  \<open>at\<close>; the selection follows when \<open>at\<close> was not given.
\<close>

definition split_edges ::
  "'d api \<Rightarrow> bool \<Rightarrow> node_match \<Rightarrow> bool \<Rightarrow> range \<Rightarrow> 'd editor
     \<Rightarrow> (error \<times> 'd editor) + (location option \<times> 'd editor)" where
  "split_edges E at_given match voids r ed =
     (let (rangeRef, d1) = Editor_rangeRef E r Inward (doc ed);
          (start, end') = Range_edges r;
          so = no_options\<lparr>opt_match := Some match, opt_voids := Some voids\<rparr>
      in case splitNodes E (so\<lparr>opt_at := Some (LPoint end')\<rparr>) (ed\<lparr>doc := d1\<rparr>) of
           Threw e ed2 \<Rightarrow> Inl (e, ed2)
         | Returned ed2 \<Rightarrow>
            (case splitNodes E (so\<lparr>opt_at := Some (LPoint start)\<rparr>) ed2 of
               Threw e ed3 \<Rightarrow> Inl (e, ed3)
             | Returned ed3 \<Rightarrow>
                (let (ro, d4) = Editor_rangeRef_unref E rangeRef (doc ed3);
                     ed4 = ed3\<lparr>doc := d4\<rparr>
                 in if at_given then Inr (map_option LRange ro, ed4)
                    else (case ro of
                            None \<Rightarrow> Inl (TypeError, ed4)
                          | Some r' \<Rightarrow> Inr (Some (LRange r'), Editor_select E (LRange r') ed4)))))"

text \<open>
  The location of \<^verbatim>\<open>setNodes\<close> once the match is known: a range is unhung unless
  \<open>hanging\<close> is set, and its edges are split when \<open>split\<close> is set.
\<close>

definition setNodes_location ::
  "'d api \<Rightarrow> options \<Rightarrow> node_match \<Rightarrow> location \<Rightarrow> 'd editor
     \<Rightarrow> (error \<times> 'd editor) + (location option \<times> 'd editor)" where
  "setNodes_location E opts match at0 ed =
     (let hanging = (case opt_hanging opts of None \<Rightarrow> False | Some h \<Rightarrow> h);
          split = (case opt_split opts of None \<Rightarrow> False | Some s \<Rightarrow> s);
          voids = (case opt_voids opts of None \<Rightarrow> False | Some v \<Rightarrow> v);
          at1 = (case at0 of
                   LRange r \<Rightarrow> if \<not> hanging then LRange (Editor_unhangRange E (doc ed) r) else at0
                 | _ \<Rightarrow> at0)
      in case at1 of
           LRange r \<Rightarrow> if split then split_edges E (opt_at opts \<noteq> None) match voids r ed
                       else Inr (Some at1, ed)
         | _ \<Rightarrow> Inr (Some at1, ed))"

definition setNodes_body :: "'d api \<Rightarrow> props \<Rightarrow> options \<Rightarrow> 'd editor \<Rightarrow> 'd editor outcome" where
  "setNodes_body E props opts ed =
     (let mode = (case opt_mode opts of None \<Rightarrow> Highest | Some m \<Rightarrow> m);
          voids = (case opt_voids opts of None \<Rightarrow> False | Some v \<Rightarrow> v)
      in case at_or_selection E opts (doc ed) of
           None \<Rightarrow> Returned ed
         | Some at0 \<Rightarrow>
            (case (case opt_match opts of None \<Rightarrow> default_match E (doc ed) at0 | Some m \<Rightarrow> Some m) of
               None \<Rightarrow> Threw NodeError ed
             | Some match \<Rightarrow>
                (case setNodes_location E opts match at0 ed of
                   Inl (e, ed1) \<Rightarrow> Threw e ed1
                 | Inr (at2, ed1) \<Rightarrow>
                     Returned (setNodes_loop E props
                       (case at2 of None \<Rightarrow> []
                        | Some a \<Rightarrow> Editor_nodes E (doc ed1) a match mode voids) ed1))))"

definition setNodes :: "'d api \<Rightarrow> props \<Rightarrow> options \<Rightarrow> 'd editor \<Rightarrow> 'd editor outcome" where
  "setNodes E props opts = withoutNormalizing E (setNodes_body E props opts)"

text \<open>
  \<^verbatim>\<open>unsetNodes\<close>: a single name is wrapped in an array, \<^verbatim>\<open>obj[key] = null\<close> for every
  key in turn, then \<^verbatim>\<open>Editor.setNodes(editor, obj, options)\<close>.
\<close>

fun unsetNodes_obj :: "string list \<Rightarrow> props \<Rightarrow> props" where
  "unsetNodes_obj [] obj = obj"
| "unsetNodes_obj (key # rest) obj = unsetNodes_obj rest (AList.update key Null obj)"

definition unsetNodes :: "'d api \<Rightarrow> string list \<Rightarrow> options \<Rightarrow> 'd editor \<Rightarrow> 'd editor outcome" where
  "unsetNodes E props opts ed = setNodes E (unsetNodes_obj props []) opts ed"

section \<open>mergeNodes\<close>

text \<open>\<^verbatim>\<open>Editor.parent(editor, path)\<close>: the node at the parent path; both steps may throw.\<close>

definition Editor_parent :: "'d api \<Rightarrow> 'd \<Rightarrow> path \<Rightarrow> error + node" where
  "Editor_parent E d p =
     (case Path_parent p of
        None \<Rightarrow> Inl PathError
      | Some pp \<Rightarrow> (case Editor_node E d pp of None \<Rightarrow> Inl NodeError | Some n \<Rightarrow> Inr n))"

text \<open>
  A nested \<^verbatim>\<open>Editor.removeNodes(editor, { at: ref.current!, voids })\<close>: a \<^verbatim>\<open>null\<close> location
  is not replaced by the selection (the default applies to \<^verbatim>\<open>undefined\<close> only), so the
  transform returns at \<^verbatim>\<open>if (!at)\<close>.
\<close>

definition removeNodes_at :: "'d api \<Rightarrow> path option \<Rightarrow> bool \<Rightarrow> 'd editor \<Rightarrow> 'd editor outcome" where
  "removeNodes_at E at' voids ed =
     (case at' of
        None \<Rightarrow> withoutNormalizing E Returned ed
      | Some p \<Rightarrow> removeNodes E (no_options\<lparr>opt_at := Some (LPath p), opt_voids := Some voids\<rparr>) ed)"

text \<open>The location of \<^verbatim>\<open>mergeNodes\<close> after the two \<^verbatim>\<open>Range.isRange(at)\<close> branches.\<close>

definition mergeNodes_range ::
  "'d api \<Rightarrow> bool \<Rightarrow> bool \<Rightarrow> location \<Rightarrow> 'd editor \<Rightarrow> (error \<times> 'd editor) + (path \<times> location \<times> 'd editor)" where
  "mergeNodes_range E at_given hanging at0 ed =
     (case at0 of
        LPath p \<Rightarrow> Inr (p, at0, ed)
      | LPoint pt \<Rightarrow> Inr (point_path pt, at0, ed)
      | LRange r0 \<Rightarrow>
          (let r = (if \<not> hanging then Editor_unhangRange E (doc ed) r0 else r0)
           in if Range_isCollapsed r then Inr (point_path (anchor r), LPoint (anchor r), ed)
              else (let (start, end') = Range_edges r;
                        (pointRef, d1) = Editor_pointRef E end' None (doc ed);
                        ed1 = Editor_delete E r (ed\<lparr>doc := d1\<rparr>);
                        (po, d2) = Editor_pointRef_unref E pointRef (doc ed1);
                        ed2 = ed1\<lparr>doc := d2\<rparr>
                    in case po of
                         None \<Rightarrow> Inl (TypeError, ed2)
                       | Some pt \<Rightarrow>
                           Inr (point_path pt, LPoint pt,
                                if at_given then ed2 else Editor_select E (LPoint pt) ed2))))"

text \<open>
  The last step of \<^verbatim>\<open>mergeNodes\<close>: an empty predecessor is removed, otherwise the
  \<^verbatim>\<open>merge_node\<close> is applied.
\<close>

definition mergeNodes_finish ::
  "'d api \<Rightarrow> bool \<Rightarrow> node \<Rightarrow> path \<Rightarrow> path \<Rightarrow> nat \<Rightarrow> props \<Rightarrow> 'd editor \<Rightarrow> 'd editor outcome" where
  "mergeNodes_finish E voids prevNode prevPath newPath position properties ed =
     (if (isElement prevNode \<and> Editor_isEmpty E prevNode)
         \<or> (case prevNode of Text ps s \<Rightarrow> s = '''' | _ \<Rightarrow> False)
      then removeNodes_at E (Some prevPath) voids ed
      else Returned (editor_apply E (Merge_node newPath position None properties) ed))"

text \<open>
  The lookup of the ancestor that the merge would leave empty, and its tracking:
  \<^verbatim>\<open>levels\<close>, \<^verbatim>\<open>emptyAncestor\<close> and \<^verbatim>\<open>emptyRef\<close> of \<^verbatim>\<open>mergeNodes\<close>.
\<close>

definition mergeNodes_emptyRef :: "'d api \<Rightarrow> path \<Rightarrow> path \<Rightarrow> 'd \<Rightarrow> nat option \<times> 'd" where
  "mergeNodes_emptyRef E path' prevPath d =
     (let commonPath = Path_common path' prevPath;
          levels = butlast (drop (length commonPath)
                     (map fst (Editor_levels E d path' False False)));
          emptyAncestor = Editor_match E d path' (MSingleAmong levels) False
      in case emptyAncestor of
           None \<Rightarrow> (None, d)
         | Some (n, p) \<Rightarrow> (let (r, d1) = Editor_pathRef E p d in (Some r, d1)))"

text \<open>
  The position and the properties of the merge, or \<open>None\<close> when the two nodes are not of
  the same kind (the throw of \<^verbatim>\<open>mergeNodes\<close>).
\<close>

definition mergeNodes_position :: "node \<Rightarrow> node \<Rightarrow> (nat \<times> props) option" where
  "mergeNodes_position node prevNode =
     (if isText node \<and> isText prevNode
      then Some (case prevNode of Text ps s \<Rightarrow> length s | _ \<Rightarrow> 0, node_props node)
      else if isElement node \<and> isElement prevNode
      then Some (length (node_children prevNode), node_props node)
      else None)"

text \<open>
  The two steps of \<^verbatim>\<open>mergeNodes\<close> before the last: the node is moved next to its
  predecessor unless it is a sibling already, then the tracked empty ancestor is removed.
\<close>

definition mergeNodes_adjust ::
  "'d api \<Rightarrow> bool \<Rightarrow> path \<Rightarrow> path \<Rightarrow> bool \<Rightarrow> nat option \<Rightarrow> 'd editor \<Rightarrow> 'd editor outcome" where
  "mergeNodes_adjust E voids path' newPath isPreviousSibling emptyRef ed =
     and_then (if \<not> isPreviousSibling
               then moveNodes E (no_options\<lparr>opt_at := Some (LPath path'), opt_voids := Some voids\<rparr>)
                      newPath ed
               else Returned ed)
       (\<lambda>ed2. case emptyRef of
                 None \<Rightarrow> Returned ed2
               | Some r \<Rightarrow> removeNodes_at E (Editor_pathRef_current E r (doc ed2)) voids ed2)"

text \<open>
  \<^verbatim>\<open>mergeNodes\<close> from the two resolved entries on: the empty ancestor is looked up and
  tracked, the kinds are compared, then the move, the removals and the merge follow in
  the order of the source, and the reference is released.
\<close>

definition mergeNodes_entries ::
  "'d api \<Rightarrow> bool \<Rightarrow> node_entry \<Rightarrow> node_entry \<Rightarrow> 'd editor \<Rightarrow> 'd editor outcome" where
  "mergeNodes_entries E voids current prev ed =
     (let (node, path') = current; (prevNode, prevPath) = prev
      in if path' = [] \<or> prevPath = [] then Returned ed
         else (case Path_next prevPath of
                 None \<Rightarrow> Threw PathError ed
               | Some newPath \<Rightarrow>
     (let isPreviousSibling = Path_isSibling path' prevPath;
          (emptyRef, d1) = mergeNodes_emptyRef E path' prevPath (doc ed);
          ed1 = ed\<lparr>doc := d1\<rparr>
      in case mergeNodes_position node prevNode of
           None \<Rightarrow> Threw (MergeKindError path' node prevNode) ed1
         | Some (position, properties) \<Rightarrow>
            and_then (mergeNodes_adjust E voids path' newPath isPreviousSibling emptyRef ed1)
              (\<lambda>ed3. and_then
                 (mergeNodes_finish E voids prevNode prevPath newPath position properties ed3)
                 (\<lambda>ed4. case emptyRef of
                           None \<Rightarrow> Returned ed4
                         | Some r \<Rightarrow>
                             Returned (ed4\<lparr>doc := snd (Editor_pathRef_unref E r (doc ed4))\<rparr>))))))"

text \<open>
  \<^verbatim>\<open>mergeNodes\<close> up to the two queries \<^verbatim>\<open>Editor.match\<close> and \<^verbatim>\<open>Editor.previous\<close>: an early
  return or throw, or the \<open>voids\<close> option, the two results and the editor.
\<close>

definition mergeNodes_locate ::
  "'d api \<Rightarrow> options \<Rightarrow> 'd editor
     \<Rightarrow> 'd editor outcome + (bool \<times> node_entry option \<times> node_entry option \<times> 'd editor)" where
  "mergeNodes_locate E opts ed =
     (let hanging = (case opt_hanging opts of None \<Rightarrow> False | Some h \<Rightarrow> h);
          voids = (case opt_voids opts of None \<Rightarrow> False | Some v \<Rightarrow> v)
      in case at_or_selection E opts (doc ed) of
           None \<Rightarrow> Inl (Returned ed)
         | Some at0 \<Rightarrow>
            (case (case opt_match opts of
                     Some m \<Rightarrow> Inr m
                   | None \<Rightarrow> (case at0 of
                                LPath p \<Rightarrow> map_sum id MChildOf (Editor_parent E (doc ed) p)
                              | _ \<Rightarrow> Inr MBlock)) of
               Inl e \<Rightarrow> Inl (Threw e ed)
             | Inr match \<Rightarrow>
                (case mergeNodes_range E (opt_at opts \<noteq> None) hanging at0 ed of
                   Inl (e, ed1) \<Rightarrow> Inl (Threw e ed1)
                 | Inr (atPath, at1, ed1) \<Rightarrow>
                    Inr (voids, Editor_match E (doc ed1) atPath match voids,
                         Editor_previous E (doc ed1) at1 match voids, ed1))))"

definition mergeNodes_body :: "'d api \<Rightarrow> options \<Rightarrow> 'd editor \<Rightarrow> 'd editor outcome" where
  "mergeNodes_body E opts ed =
     (case mergeNodes_locate E opts ed of
        Inl r \<Rightarrow> r
      | Inr (voids, Some current, Some prev, ed1) \<Rightarrow> mergeNodes_entries E voids current prev ed1
      | Inr (voids, _, _, ed1) \<Rightarrow> Returned ed1)"

definition mergeNodes :: "'d api \<Rightarrow> options \<Rightarrow> 'd editor \<Rightarrow> 'd editor outcome" where
  "mergeNodes E opts = withoutNormalizing E (mergeNodes_body E opts)"

section \<open>liftNodes\<close>

text \<open>
  One pass of the loop of \<^verbatim>\<open>liftNodes\<close> for a resolved path of length at least two:
  the four cases on the number of children of the parent and the index of the node.
\<close>

definition liftNodes_move :: "'d api \<Rightarrow> bool \<Rightarrow> path \<Rightarrow> path \<Rightarrow> 'd editor \<Rightarrow> 'd editor outcome" where
  "liftNodes_move E voids path' to ed =
     moveNodes E (no_options\<lparr>opt_at := Some (LPath path'), opt_voids := Some voids\<rparr>) to ed"

definition liftNodes_step :: "'d api \<Rightarrow> bool \<Rightarrow> path \<Rightarrow> 'd editor \<Rightarrow> 'd editor outcome" where
  "liftNodes_step E voids path' ed =
     (case Path_parent path' of
        None \<Rightarrow> Threw PathError ed
      | Some parentPath \<Rightarrow>
         (case Editor_node E (doc ed) parentPath of
            None \<Rightarrow> Threw NodeError ed
          | Some parent \<Rightarrow>
             (let index = last path'; len = length (node_children parent)
              in if len = 1
                 then (case Path_next parentPath of
                         None \<Rightarrow> Threw PathError ed
                       | Some toPath \<Rightarrow>
                           and_then (liftNodes_move E voids path' toPath ed)
                             (removeNodes_at E (Some parentPath) voids))
                 else if index = 0 then liftNodes_move E voids path' parentPath ed
                 else if int index = int len - 1
                 then (case Path_next parentPath of
                         None \<Rightarrow> Threw PathError ed
                       | Some toPath \<Rightarrow> liftNodes_move E voids path' toPath ed)
                 else (case Path_next path' of
                         None \<Rightarrow> Threw PathError ed
                       | Some splitPath \<Rightarrow>
                          (case Path_next parentPath of
                             None \<Rightarrow> Threw PathError ed
                           | Some toPath \<Rightarrow>
                               and_then
                                 (splitNodes E (no_options\<lparr>opt_at := Some (LPath splitPath),
                                                  opt_voids := Some voids\<rparr>) ed)
                                 (liftNodes_move E voids path' toPath))))))"

fun liftNodes_loop :: "'d api \<Rightarrow> bool \<Rightarrow> nat list \<Rightarrow> 'd editor \<Rightarrow> 'd editor outcome" where
  "liftNodes_loop E voids [] ed = Returned ed"
| "liftNodes_loop E voids (pathRef # rest) ed =
     (case Editor_pathRef_unref E pathRef (doc ed) of
        (None, d1) \<Rightarrow> Threw TypeError (ed\<lparr>doc := d1\<rparr>)
      | (Some path', d1) \<Rightarrow>
          if length path' < 2 then Threw (LiftDepthError path') (ed\<lparr>doc := d1\<rparr>)
          else and_then (liftNodes_step E voids path' (ed\<lparr>doc := d1\<rparr>))
                 (liftNodes_loop E voids rest))"

text \<open>
  The paths that the loop resolves, one per pass it begins, in order: the value of
  \<^verbatim>\<open>pathRef.unref()\<close> in each pass, until the loop ends or a pass throws.
\<close>

fun liftNodes_resolved :: "'d api \<Rightarrow> bool \<Rightarrow> nat list \<Rightarrow> 'd editor \<Rightarrow> path option list" where
  "liftNodes_resolved E voids [] ed = []"
| "liftNodes_resolved E voids (pathRef # rest) ed =
     (case Editor_pathRef_unref E pathRef (doc ed) of
        (None, d1) \<Rightarrow> [None]
      | (Some path', d1) \<Rightarrow>
          Some path' #
            (if length path' < 2 then []
             else (case liftNodes_step E voids path' (ed\<lparr>doc := d1\<rparr>) of
                     Returned ed' \<Rightarrow> liftNodes_resolved E voids rest ed'
                   | Threw e ed' \<Rightarrow> [])))"

text \<open>The references \<^verbatim>\<open>liftNodes\<close> takes on its matches, with the state that holds them.\<close>

definition liftNodes_pathRefs ::
  "'d api \<Rightarrow> options \<Rightarrow> 'd editor \<Rightarrow> 'd editor outcome + (bool \<times> nat list \<times> 'd editor)" where
  "liftNodes_pathRefs E opts ed =
     (let at' = at_or_selection E opts (doc ed);
          mode = (case opt_mode opts of None \<Rightarrow> Highest | Some m \<Rightarrow> m);
          voids = (case opt_voids opts of None \<Rightarrow> False | Some v \<Rightarrow> v)
      in case (case opt_match opts of
                 Some m \<Rightarrow> Some m
               | None \<Rightarrow> (case at' of Some a \<Rightarrow> default_match E (doc ed) a | None \<Rightarrow> Some MBlock)) of
           None \<Rightarrow> Inl (Threw NodeError ed)
         | Some match \<Rightarrow>
            (case at' of
               None \<Rightarrow> Inl (Returned ed)
             | Some a \<Rightarrow>
                (let matches = Editor_nodes E (doc ed) a match mode voids;
                     (pathRefs, d1) = pathRefs_of E matches (doc ed)
                 in Inr (voids, pathRefs, ed\<lparr>doc := d1\<rparr>))))"

definition liftNodes_body :: "'d api \<Rightarrow> options \<Rightarrow> 'd editor \<Rightarrow> 'd editor outcome" where
  "liftNodes_body E opts ed =
     (case liftNodes_pathRefs E opts ed of
        Inl r \<Rightarrow> r
      | Inr (voids, pathRefs, ed1) \<Rightarrow> liftNodes_loop E voids pathRefs ed1)"

definition liftNodes :: "'d api \<Rightarrow> options \<Rightarrow> 'd editor \<Rightarrow> 'd editor outcome" where
  "liftNodes E opts = withoutNormalizing E (liftNodes_body E opts)"

section \<open>wrapNodes\<close>

text \<open>
  The wrapper \<^verbatim>\<open>{ ...element, children: [] }\<close> and the path it is inserted at,
  \<^verbatim>\<open>Path.next(lastPath).slice(0, commonPath.length + 1)\<close>.
\<close>

definition wrapNodes_wrapper :: "node \<Rightarrow> node" where
  "wrapNodes_wrapper element = Element (node_props element) []"

definition wrapNodes_commonPath :: "path \<Rightarrow> path \<Rightarrow> path option" where
  "wrapNodes_commonPath firstPath lastPath =
     (if firstPath = lastPath then Path_parent firstPath else Some (Path_common firstPath lastPath))"

definition wrapNodes_wrapperPath :: "path \<Rightarrow> path \<Rightarrow> path option" where
  "wrapNodes_wrapperPath commonPath lastPath =
     map_option (\<lambda>n. take (length commonPath + 1) n) (Path_next lastPath)"

text \<open>The body of the loop over the roots, from \<^verbatim>\<open>if (matches.length > 0)\<close> on.\<close>

definition wrapNodes_matches ::
  "'d api \<Rightarrow> node \<Rightarrow> bool \<Rightarrow> node_entry list \<Rightarrow> 'd editor \<Rightarrow> 'd editor outcome" where
  "wrapNodes_matches E element voids matches ed =
     (if matches = [] then Returned ed
      else (let firstPath = snd (hd matches); lastPath = snd (last matches)
            in case wrapNodes_commonPath firstPath lastPath of
                 None \<Rightarrow> Threw PathError ed
               | Some commonPath \<Rightarrow>
                  (let range' = Editor_range E (doc ed) firstPath lastPath
                   in case Editor_node E (doc ed) commonPath of
                        None \<Rightarrow> Threw NodeError ed
                      | Some commonNode \<Rightarrow>
                         (case wrapNodes_wrapperPath commonPath lastPath of
                            None \<Rightarrow> Threw PathError ed
                          | Some wrapperPath \<Rightarrow>
                             and_then
                               (insertNodes E [wrapNodes_wrapper element]
                                  (no_options\<lparr>opt_at := Some (LPath wrapperPath),
                                     opt_voids := Some voids\<rparr>) ed)
                               (moveNodes E
                                  (no_options\<lparr>opt_at := Some (LRange range'),
                                     opt_match := Some (MChildOf commonNode),
                                     opt_voids := Some voids\<rparr>)
                                  (wrapperPath @ [0]))))))"

fun wrapNodes_roots ::
  "'d api \<Rightarrow> node \<Rightarrow> node_match \<Rightarrow> mode \<Rightarrow> bool \<Rightarrow> location \<Rightarrow> node_entry list \<Rightarrow> 'd editor
     \<Rightarrow> 'd editor outcome" where
  "wrapNodes_roots E element match mode voids at' [] ed = Returned ed"
| "wrapNodes_roots E element match mode voids at' ((rootNode, rootPath) # rest) ed =
     (case (case at' of
              LRange r \<Rightarrow> map_option LRange
                            (Range_intersection r (Editor_range E (doc ed) rootPath rootPath))
            | _ \<Rightarrow> Some at') of
        None \<Rightarrow> wrapNodes_roots E element match mode voids at' rest ed
      | Some a \<Rightarrow>
          and_then
            (wrapNodes_matches E element voids (Editor_nodes E (doc ed) a match mode voids) ed)
            (wrapNodes_roots E element match mode voids at' rest))"

definition wrapNodes_body :: "'d api \<Rightarrow> node \<Rightarrow> options \<Rightarrow> 'd editor \<Rightarrow> 'd editor outcome" where
  "wrapNodes_body E element opts ed =
     (let mode = (case opt_mode opts of None \<Rightarrow> Highest | Some m \<Rightarrow> m);
          split = (case opt_split opts of None \<Rightarrow> False | Some s \<Rightarrow> s);
          voids = (case opt_voids opts of None \<Rightarrow> False | Some v \<Rightarrow> v)
      in case at_or_selection E opts (doc ed) of
           None \<Rightarrow> Returned ed
         | Some at0 \<Rightarrow>
            (case (case opt_match opts of
                     Some m \<Rightarrow> Some m
                   | None \<Rightarrow> (case at0 of
                                LPath p \<Rightarrow> matchPath E (doc ed) p
                              | _ \<Rightarrow> if isInline E element then Some (MList [MInline, MText])
                                     else Some MBlock)) of
               None \<Rightarrow> Threw NodeError ed
             | Some match \<Rightarrow>
                (case (case at0 of
                         LRange r \<Rightarrow> if split then split_edges E (opt_at opts \<noteq> None) match voids r ed
                                     else Inr (Some at0, ed)
                       | _ \<Rightarrow> Inr (Some at0, ed)) of
                   Inl (e, ed1) \<Rightarrow> Threw e ed1
                 | Inr (None, ed1) \<Rightarrow> Returned ed1
                 | Inr (Some at1, ed1) \<Rightarrow>
                    wrapNodes_roots E element match mode voids at1
                      (Editor_nodes E (doc ed1) at1 (if isInline E element then MBlock else MEditor)
                         Highest voids)
                      ed1)))"

definition wrapNodes :: "'d api \<Rightarrow> node \<Rightarrow> options \<Rightarrow> 'd editor \<Rightarrow> 'd editor outcome" where
  "wrapNodes E element opts = withoutNormalizing E (wrapNodes_body E element opts)"

section \<open>A reference editor\<close>

text \<open>
  Modelled from the spec: the collaborators \<^verbatim>\<open>node.ts\<close> imports (query engine, reference
  tracker, apply engine) are not among the sources. The editor \<open>slate\<close> below follows
  the contracts of sections 3, 4.1, 4.2 and 6 of the specification on a concrete tree,
  so that the transforms can be run on documents. Which elements are inline and which
  are void is the editor's schema (\<^verbatim>\<open>editor.isInline\<close>, \<^verbatim>\<open>editor.isVoid\<close>), supplied by
  its user; in the schema \<open>by_property\<close> an element is inline, or void, when it carries
  the property \<open>inline\<close>, or \<open>void\<close>, with the value \<open>true\<close>.
\<close>

record schema =
  inline_of :: "node \<Rightarrow> bool"
  void_of :: "node \<Rightarrow> bool"

record slate_doc =
  tree :: "node list"
  sel :: "range option"
  pathRefs :: "path option list"
  pointRefs :: "(point option \<times> affinity option) list"
  rangeRefs :: "range option list"

definition by_property :: schema where
  "by_property =
     \<lparr>inline_of = (\<lambda>n. isElement n \<and> map_of (node_props n) ''inline'' = Some (Bool True)),
      void_of = (\<lambda>n. isElement n \<and> map_of (node_props n) ''void'' = Some (Bool True))\<rparr>"

fun with_children :: "node \<Rightarrow> node list \<Rightarrow> node" where
  "with_children (Editor _) cs = Editor cs"
| "with_children (Element ps _) cs = Element ps cs"
| "with_children (Text ps s) cs = Text ps s"

text \<open>Modelled from the spec: resolve(path), the node a path addresses, if any.\<close>

fun node_get :: "node \<Rightarrow> path \<Rightarrow> node option" where
  "node_get n [] = Some n"
| "node_get n (i # p) =
     (if i < length (node_children n) then node_get (node_children n ! i) p else None)"

definition slate_node :: "slate_doc \<Rightarrow> path \<Rightarrow> node option" where
  "slate_node d p = node_get (Editor (tree d)) p"

text \<open>The children list of the node at a path, rewritten by \<open>f\<close>.\<close>

fun modify_children :: "node list \<Rightarrow> path \<Rightarrow> (node list \<Rightarrow> node list) \<Rightarrow> node list" where
  "modify_children cs [] f = f cs"
| "modify_children cs (i # p) f =
     (if i < length cs
      then cs[i := with_children (cs ! i) (modify_children (node_children (cs ! i)) p f)]
      else cs)"

text \<open>
  Modelled from the spec: the ordered traversal of the query engine. All entries of a
  subtree in document order (or with the children of every node visited last to first),
  a node before its descendants; the children of a node for which \<open>stop\<close> holds are not
  visited.
\<close>

fun entries_node :: "bool \<Rightarrow> (node \<Rightarrow> bool) \<Rightarrow> node \<Rightarrow> path \<Rightarrow> node_entry list"
  and entries_list :: "bool \<Rightarrow> (node \<Rightarrow> bool) \<Rightarrow> node list \<Rightarrow> path \<Rightarrow> nat \<Rightarrow> node_entry list" where
  "entries_node rev' stop (Text ps s) p = [(Text ps s, p)]"
| "entries_node rev' stop (Element ps cs) p =
     (Element ps cs, p) # (if stop (Element ps cs) then [] else entries_list rev' stop cs p 0)"
| "entries_node rev' stop (Editor cs) p = (Editor cs, p) # entries_list rev' stop cs p 0"
| "entries_list rev' stop [] p i = []"
| "entries_list rev' stop (c # cs) p i =
     (if rev' then entries_list rev' stop cs p (i + 1) @ entries_node rev' stop c (p @ [i])
      else entries_node rev' stop c (p @ [i]) @ entries_list rev' stop cs p (i + 1))"

definition slate_entries :: "schema \<Rightarrow> slate_doc \<Rightarrow> bool \<Rightarrow> bool \<Rightarrow> node_entry list" where
  "slate_entries S d rev' voids =
     entries_node rev' (\<lambda>n. \<not> voids \<and> void_of S n) (Editor (tree d)) []"

text \<open>The text leaves below a path, in document order; the first and the last give
  the start and the end point of the node.\<close>

definition texts_under :: "slate_doc \<Rightarrow> path \<Rightarrow> node_entry list" where
  "texts_under d p =
     (case slate_node d p of
        None \<Rightarrow> []
      | Some n \<Rightarrow> filter (\<lambda>(m, q). isText m) (entries_node False (\<lambda>n. False) n p))"

definition text_length :: "node \<Rightarrow> nat" where
  "text_length n = (case n of Text ps s \<Rightarrow> length s | _ \<Rightarrow> 0)"

definition slate_start :: "slate_doc \<Rightarrow> path \<Rightarrow> point option" where
  "slate_start d p = (case texts_under d p of [] \<Rightarrow> None | (n, q) # _ \<Rightarrow> Some (Point q 0))"

definition slate_end :: "slate_doc \<Rightarrow> path \<Rightarrow> point option" where
  "slate_end d p =
     (case texts_under d p of
        [] \<Rightarrow> None
      | e # es \<Rightarrow> Some (Point (snd (last (e # es))) (text_length (fst (last (e # es))))))"

text \<open>
  Modelled from the spec: \<^verbatim>\<open>splitNodes\<close> on a path splits "at the corresponding
  end-of-node point", so \<^verbatim>\<open>Editor.point\<close> of a path is the end point of the node.
\<close>

definition slate_point :: "slate_doc \<Rightarrow> path \<Rightarrow> point option" where
  "slate_point d p = slate_end d p"

text \<open>The point after a node: the start of the first text leaf that follows it.\<close>

definition slate_after :: "schema \<Rightarrow> slate_doc \<Rightarrow> path \<Rightarrow> point option" where
  "slate_after S d p =
     (case filter (\<lambda>(n, q). isText n \<and> Path_compare q p = 1) (slate_entries S d False True) of
        [] \<Rightarrow> None
      | (n, q) # _ \<Rightarrow> Some (Point q 0))"

definition slate_range :: "slate_doc \<Rightarrow> path \<Rightarrow> path \<Rightarrow> range" where
  "slate_range d p q =
     MkRange (case slate_start d p of None \<Rightarrow> Point p 0 | Some a \<Rightarrow> a)
             (case slate_end d q of None \<Rightarrow> Point q 0 | Some b \<Rightarrow> b)"

definition slate_isEnd :: "slate_doc \<Rightarrow> point \<Rightarrow> path \<Rightarrow> bool" where
  "slate_isEnd d pt p = (slate_end d p = Some pt)"

definition slate_isEdge :: "slate_doc \<Rightarrow> point \<Rightarrow> path \<Rightarrow> bool" where
  "slate_isEdge d pt p = (slate_start d p = Some pt \<or> slate_end d p = Some pt)"

definition slate_isEmpty :: "schema \<Rightarrow> node \<Rightarrow> bool" where
  "slate_isEmpty S n =
     (case node_children n of
        [] \<Rightarrow> True
      | [Text ps s] \<Rightarrow> s = '''' \<and> \<not> void_of S n
      | _ \<Rightarrow> False)"

text \<open>
  Modelled from the spec: a match pattern is dispatched on its variant. The reference
  editor compares nodes by value where the source compares them by identity.
\<close>

fun node_matches :: "schema \<Rightarrow> node_match \<Rightarrow> node \<Rightarrow> bool" where
  "node_matches S MText n = isText n"
| "node_matches S MInline n = (isElement n \<and> inline_of S n)"
| "node_matches S MBlock n = (isElement n \<and> \<not> inline_of S n)"
| "node_matches S MVoid n = (isElement n \<and> void_of S n)"
| "node_matches S MEditor n = (case n of Editor cs \<Rightarrow> True | _ \<Rightarrow> False)"
| "node_matches S (MList ms) n = list_ex (\<lambda>m. node_matches S m n) ms"
| "node_matches S (MFun f) n = f n"
| "node_matches S (MNode m) n = (n = m)"
| "node_matches S (MChildOf m) n = (n \<in> set (node_children m))"
| "node_matches S (MSingleAmong ns) n =
     (n \<in> set ns \<and> isElement n \<and> length (node_children n) = 1)"

text \<open>
  Modelled from the spec: levels(location, reverse?, voids?), the entries from the Root
  down to the location (or up from it); without \<open>voids\<close> it ends at the first void
  element.
\<close>

fun levels_from :: "schema \<Rightarrow> bool \<Rightarrow> node \<Rightarrow> path \<Rightarrow> path \<Rightarrow> node_entry list" where
  "levels_from S voids n done' [] = [(n, done')]"
| "levels_from S voids n done' (i # p) =
     (n, done') #
       (if (\<not> voids \<and> isElement n \<and> void_of S n) \<or> \<not> i < length (node_children n) then []
        else levels_from S voids (node_children n ! i) (done' @ [i]) p)"

definition slate_levels :: "schema \<Rightarrow> slate_doc \<Rightarrow> path \<Rightarrow> bool \<Rightarrow> bool \<Rightarrow> node_entry list" where
  "slate_levels S d p reverse voids =
     (let ls = levels_from S voids (Editor (tree d)) [] p in if reverse then rev ls else ls)"

definition slate_match ::
  "schema \<Rightarrow> slate_doc \<Rightarrow> path \<Rightarrow> node_match \<Rightarrow> bool \<Rightarrow> node_entry option" where
  "slate_match S d p m voids =
     find (\<lambda>(n, q). node_matches S m n) (slate_levels S d p False voids)"

text \<open>
  Modelled from the spec: nodes(location, pattern, mode, voids), the matching entries
  between the first and the last leaf of the location, in document order, an ancestor
  of these leaves included; in mode \<open>Highest\<close> an entry below (or at) the previous hit
  is skipped.
\<close>

definition slate_span :: "slate_doc \<Rightarrow> location \<Rightarrow> path \<times> path" where
  "slate_span d at' =
     (case at' of
        LPath p \<Rightarrow> (case texts_under d p of
                      [] \<Rightarrow> (p, p)
                    | e # es \<Rightarrow> (snd e, snd (last (e # es))))
      | LPoint pt \<Rightarrow> (point_path pt, point_path pt)
      | LRange r \<Rightarrow> (let (s, e) = Range_edges r in (point_path s, point_path e)))"

fun keep_highest :: "path option \<Rightarrow> node_entry list \<Rightarrow> node_entry list" where
  "keep_highest hit [] = []"
| "keep_highest hit ((n, p) # es) =
     (case hit of
        Some h \<Rightarrow> if Path_compare p h = 0 then keep_highest hit es
                  else (n, p) # keep_highest (Some p) es
      | None \<Rightarrow> (n, p) # keep_highest (Some p) es)"

definition slate_nodes ::
  "schema \<Rightarrow> slate_doc \<Rightarrow> location \<Rightarrow> node_match \<Rightarrow> mode \<Rightarrow> bool \<Rightarrow> node_entry list" where
  "slate_nodes S d at' m mode' voids =
     (let (from, to) = slate_span d at';
          within = filter (\<lambda>(n, p). Path_compare p from \<noteq> - 1 \<and> Path_compare p to \<noteq> 1)
                     (slate_entries S d False voids);
          hits = filter (\<lambda>(n, p). node_matches S m n) within
      in case mode' of All \<Rightarrow> hits | Highest \<Rightarrow> keep_highest None hits)"

text \<open>
  Modelled from the spec: previous(location, pattern), the second matching entry of
  the reverse traversal from the start of the location back to the start of the
  document (the first one is the match at the location itself).
\<close>

definition slate_previous ::
  "schema \<Rightarrow> slate_doc \<Rightarrow> location \<Rightarrow> node_match \<Rightarrow> bool \<Rightarrow> node_entry option" where
  "slate_previous S d at' m voids =
     (let from = fst (slate_span d at');
          hits = filter (\<lambda>(n, p). Path_compare p from \<noteq> 1 \<and> node_matches S m n)
                   (slate_entries S d True voids)
      in case hits of a # b # _ \<Rightarrow> Some b | _ \<Rightarrow> None)"

subsection \<open>The path-shift rules of the atomic operations\<close>

text \<open>
  Modelled from the spec (section 4.2). \<open>ends_before op p\<close>: \<open>p\<close> passes through a later
  sibling of the node at \<open>op\<close>; \<open>is_ancestor op p\<close>: \<open>op\<close> is a proper prefix of \<open>p\<close>.
\<close>

definition ends_before :: "path \<Rightarrow> path \<Rightarrow> bool" where
  "ends_before op p =
     (op \<noteq> [] \<and> length op \<le> length p \<and> take (length op - 1) p = butlast op
        \<and> last op < p ! (length op - 1))"

definition is_ancestor :: "path \<Rightarrow> path \<Rightarrow> bool" where
  "is_ancestor op p = (length op < length p \<and> take (length op) p = op)"

definition at_or_below :: "path \<Rightarrow> path \<Rightarrow> bool" where
  "at_or_below op p = (op = p \<or> is_ancestor op p)"

definition bump :: "path \<Rightarrow> nat \<Rightarrow> int \<Rightarrow> path" where
  "bump p k delta = p[k := nat (int (p ! k) + delta)]"

definition shift_insert :: "path \<Rightarrow> path \<Rightarrow> path" where
  "shift_insert op p =
     (if op \<noteq> [] \<and> (at_or_below op p \<or> ends_before op p) then bump p (length op - 1) 1 else p)"

definition shift_remove :: "path \<Rightarrow> path \<Rightarrow> path option" where
  "shift_remove op p =
     (if at_or_below op p then None
      else if ends_before op p then Some (bump p (length op - 1) (- 1))
      else Some p)"

definition shift_split :: "path \<Rightarrow> nat \<Rightarrow> bool \<Rightarrow> path \<Rightarrow> path" where
  "shift_split op position forward p =
     (if op = [] then p
      else if op = p then (if forward then bump p (length op - 1) 1 else p)
      else if ends_before op p then bump p (length op - 1) 1
      else if is_ancestor op p \<and> position \<le> p ! length op
      then bump (bump p (length op - 1) 1) (length op) (- int position)
      else p)"

definition shift_merge :: "path \<Rightarrow> nat \<Rightarrow> path \<Rightarrow> path" where
  "shift_merge op position p =
     (if op = [] then p
      else if op = p \<or> ends_before op p then bump p (length op - 1) (- 1)
      else if is_ancestor op p
      then bump (bump p (length op - 1) (- 1)) (length op) (int position)
      else p)"

text \<open>
  A move is a removal followed by an insertion; \<open>true_path\<close> is where the node lands
  once the removal has shifted the destination.
\<close>

definition true_path :: "path \<Rightarrow> path \<Rightarrow> path" where
  "true_path op newPath =
     (if ends_before op newPath \<and> length op < length newPath
      then bump newPath (length op - 1) (- 1) else newPath)"

definition shift_move :: "path \<Rightarrow> path \<Rightarrow> path \<Rightarrow> path" where
  "shift_move op newPath p =
     (if op = newPath \<or> op = [] then p
      else if at_or_below op p then true_path op newPath @ drop (length op) p
      else (case shift_remove op p of
              None \<Rightarrow> p
            | Some q \<Rightarrow> shift_insert (true_path op newPath) q))"

fun shift_path :: "operation \<Rightarrow> bool \<Rightarrow> path \<Rightarrow> path option" where
  "shift_path (Insert_node op n) forward p = Some (shift_insert op p)"
| "shift_path (Remove_node op n) forward p = shift_remove op p"
| "shift_path (Set_node op ps qs) forward p = Some p"
| "shift_path (Split_node op (Some position) target ps) forward p =
     Some (shift_split op position forward p)"
| "shift_path (Split_node op None target ps) forward p = Some p"
| "shift_path (Merge_node op position target ps) forward p = Some (shift_merge op position p)"
| "shift_path (Move_node op (Some newPath)) forward p = Some (shift_move op newPath p)"
| "shift_path (Move_node op None) forward p = Some p"

text \<open>A point follows its path; its offset changes when its own text is split or merged.\<close>

fun shift_point :: "operation \<Rightarrow> affinity option \<Rightarrow> point \<Rightarrow> point option" where
  "shift_point (Split_node op (Some position) target ps) aff (Point p off) =
     (if op = p
      then (if position < off \<or> (position = off \<and> aff \<noteq> Some Backward)
            then Some (Point (shift_split op position True p) (off - position))
            else Some (Point p off))
      else Some (Point (shift_split op position (aff \<noteq> Some Backward) p) off))"
| "shift_point (Merge_node op position target ps) aff (Point p off) =
     Some (Point (shift_merge op position p) (if op = p then off + position else off))"
| "shift_point op' aff (Point p off) =
     map_option (\<lambda>q. Point q off) (shift_path op' (aff \<noteq> Some Backward) p)"

definition shift_range :: "operation \<Rightarrow> range \<Rightarrow> range option" where
  "shift_range op' r =
     (let fwd = \<not> Range_isBackward r
      in case (shift_point op' (Some (if fwd then Forward else Backward)) (anchor r),
               shift_point op' (Some (if fwd then Backward else Forward)) (focus r)) of
           (Some a, Some f) \<Rightarrow> Some (MkRange a f)
         | _ \<Rightarrow> None)"

subsection \<open>The apply engine on the tree\<close>

text \<open>Modelled from the spec (section 4.2): what each atomic operation does to the tree.\<close>

definition split_halves :: "node \<Rightarrow> nat \<Rightarrow> props \<Rightarrow> node list" where
  "split_halves n position ps' =
     (case n of
        Text ps s \<Rightarrow> [Text ps (take position s), Text ps' (drop position s)]
      | Element ps cs \<Rightarrow> [Element ps (take position cs), Element ps' (drop position cs)]
      | Editor cs \<Rightarrow> [n])"

definition merge_pair :: "node \<Rightarrow> node \<Rightarrow> node list" where
  "merge_pair a b =
     (case (a, b) of
        (Text ps s, Text qs t) \<Rightarrow> [Text ps (s @ t)]
      | (Element ps cs, Element qs ds) \<Rightarrow> [Element ps (cs @ ds)]
      | _ \<Rightarrow> [a, b])"

fun set_props :: "props \<Rightarrow> props \<Rightarrow> props" where
  "set_props [] ps = ps"
| "set_props ((k, v) # rest) ps =
     set_props rest (if v = Null \<or> v = Undefined then AList.delete k ps else AList.update k v ps)"

definition set_node_props :: "node \<Rightarrow> props \<Rightarrow> node" where
  "set_node_props n newProperties =
     (case n of
        Text ps s \<Rightarrow> Text (set_props newProperties ps) s
      | Element ps cs \<Rightarrow> Element (set_props newProperties ps) cs
      | Editor cs \<Rightarrow> n)"

definition insert_child :: "path \<Rightarrow> node \<Rightarrow> node list \<Rightarrow> node list" where
  "insert_child p n cs =
     (if p = [] then cs
      else modify_children cs (butlast p) (\<lambda>ks. take (last p) ks @ [n] @ drop (last p) ks))"

definition remove_child :: "path \<Rightarrow> node list \<Rightarrow> node list" where
  "remove_child p cs =
     (if p = [] then cs
      else modify_children cs (butlast p) (\<lambda>ks. take (last p) ks @ drop (last p + 1) ks))"

fun slate_tree :: "operation \<Rightarrow> node list \<Rightarrow> node list" where
  "slate_tree (Insert_node p n) cs = insert_child p n cs"
| "slate_tree (Remove_node p n) cs = remove_child p cs"
| "slate_tree (Set_node p properties newProperties) cs =
     (if p = [] then cs
      else modify_children cs (butlast p)
             (\<lambda>ks. if last p < length ks
                    then ks[last p := set_node_props (ks ! last p) newProperties] else ks))"
| "slate_tree (Split_node p (Some position) target ps) cs =
     (if p = [] then cs
      else modify_children cs (butlast p)
             (\<lambda>ks. if last p < length ks
                    then take (last p) ks @ split_halves (ks ! last p) position ps
                           @ drop (last p + 1) ks
                    else ks))"
| "slate_tree (Split_node p None target ps) cs = cs"
| "slate_tree (Merge_node p position target ps) cs =
     (if p = [] then cs
      else modify_children cs (butlast p)
             (\<lambda>ks. if 0 < last p \<and> last p < length ks
                    then take (last p - 1) ks @ merge_pair (ks ! (last p - 1)) (ks ! last p)
                           @ drop (last p + 1) ks
                    else ks))"
| "slate_tree (Move_node p (Some newPath)) cs =
     (if p = newPath then cs
      else (case node_get (Editor cs) p of
              None \<Rightarrow> cs
            | Some n \<Rightarrow> insert_child (true_path p newPath) n (remove_child p cs)))"
| "slate_tree (Move_node p None) cs = cs"

definition slate_transform :: "operation \<Rightarrow> slate_doc \<Rightarrow> slate_doc" where
  "slate_transform op' d =
     d\<lparr>tree := slate_tree op' (tree d),
       sel := Option.bind (sel d) (shift_range op'),
       pathRefs := map (\<lambda>r. Option.bind r (shift_path op' True)) (pathRefs d),
       pointRefs := map (\<lambda>(r, aff). (Option.bind r (shift_point op' aff), aff)) (pointRefs d),
       rangeRefs := map (\<lambda>r. Option.bind r (shift_range op')) (rangeRefs d)\<rparr>"

subsection \<open>The reference tracker\<close>

text \<open>
  Modelled from the spec (section 4.1): acquire appends a live entry to the registry
  and returns its index; release reads the entry and clears it.
\<close>

definition slate_pathRef :: "path \<Rightarrow> slate_doc \<Rightarrow> nat \<times> slate_doc" where
  "slate_pathRef p d = (length (pathRefs d), d\<lparr>pathRefs := pathRefs d @ [Some p]\<rparr>)"

definition slate_pathRef_current :: "nat \<Rightarrow> slate_doc \<Rightarrow> path option" where
  "slate_pathRef_current r d = (if r < length (pathRefs d) then pathRefs d ! r else None)"

definition slate_pathRef_unref :: "nat \<Rightarrow> slate_doc \<Rightarrow> path option \<times> slate_doc" where
  "slate_pathRef_unref r d = (slate_pathRef_current r d, d\<lparr>pathRefs := (pathRefs d)[r := None]\<rparr>)"

definition slate_pointRef :: "point \<Rightarrow> affinity option \<Rightarrow> slate_doc \<Rightarrow> nat \<times> slate_doc" where
  "slate_pointRef pt aff d = (length (pointRefs d), d\<lparr>pointRefs := pointRefs d @ [(Some pt, aff)]\<rparr>)"

definition slate_pointRef_current :: "nat \<Rightarrow> slate_doc \<Rightarrow> point option" where
  "slate_pointRef_current r d = (if r < length (pointRefs d) then fst (pointRefs d ! r) else None)"

definition slate_pointRef_unref :: "nat \<Rightarrow> slate_doc \<Rightarrow> point option \<times> slate_doc" where
  "slate_pointRef_unref r d =
     (slate_pointRef_current r d,
      d\<lparr>pointRefs := (pointRefs d)[r := (None, snd (pointRefs d ! r))]\<rparr>)"

definition slate_rangeRef :: "range \<Rightarrow> affinity \<Rightarrow> slate_doc \<Rightarrow> nat \<times> slate_doc" where
  "slate_rangeRef r aff d = (length (rangeRefs d), d\<lparr>rangeRefs := rangeRefs d @ [Some r]\<rparr>)"

definition slate_rangeRef_unref :: "nat \<Rightarrow> slate_doc \<Rightarrow> range option \<times> slate_doc" where
  "slate_rangeRef_unref r d =
     (if r < length (rangeRefs d) then rangeRefs d ! r else None,
      d\<lparr>rangeRefs := (rangeRefs d)[r := None]\<rparr>)"

subsection \<open>Text and selection transforms, assembled editor\<close>

text \<open>
  Character-level editing is outside the specification. The reference editor deletes
  a range that lies within one text leaf and leaves any other range alone; it records
  no operation for that, nor for a selection change, since neither is one of the six
  atomic operations. It has no schema, so its normalisation pass changes nothing.
\<close>

definition slate_delete :: "range \<Rightarrow> slate_doc editor \<Rightarrow> slate_doc editor" where
  "slate_delete r ed =
     (let (s, e) = Range_edges r; p = point_path s
      in if point_path e = p \<and> p \<noteq> []
         then ed\<lparr>doc := (doc ed)\<lparr>tree :=
                modify_children (tree (doc ed)) (butlast p)
                  (\<lambda>ks. if last p < length ks
                         then (case ks ! last p of
                                 Text ps t \<Rightarrow> ks[last p := Text ps (take (point_offset s) t
                                                             @ drop (point_offset e) t)]
                               | _ \<Rightarrow> ks)
                         else ks)\<rparr>\<rparr>
         else ed)"

definition slate_select :: "location \<Rightarrow> slate_doc editor \<Rightarrow> slate_doc editor" where
  "slate_select at' ed =
     ed\<lparr>doc := (doc ed)\<lparr>sel := Some (case at' of
                                       LRange r \<Rightarrow> r
                                     | LPoint pt \<Rightarrow> MkRange pt pt
                                     | LPath p \<Rightarrow> slate_range (doc ed) p p)\<rparr>\<rparr>"

definition slate_with :: "schema \<Rightarrow> slate_doc api" where
  "slate_with S = \<lparr>
     transform = slate_transform,
     selection = sel,
     children = tree,
     isInline = inline_of S,
     isVoid = void_of S,
     Editor_normalize = (\<lambda>ed. ed),
     Editor_pathRef = slate_pathRef,
     Editor_pathRef_current = slate_pathRef_current,
     Editor_pathRef_unref = slate_pathRef_unref,
     Editor_pointRef = slate_pointRef,
     Editor_pointRef_current = slate_pointRef_current,
     Editor_pointRef_unref = slate_pointRef_unref,
     Editor_rangeRef = slate_rangeRef,
     Editor_rangeRef_unref = slate_rangeRef_unref,
     Editor_node = slate_node,
     Editor_match = slate_match S,
     Editor_previous = slate_previous S,
     Editor_nodes = slate_nodes S,
     Editor_levels = slate_levels S,
     Editor_point = slate_point,
     Editor_end = slate_end,
     Editor_after = slate_after S,
     Editor_range = slate_range,
     Editor_isEnd = slate_isEnd,
     Editor_isEdge = slate_isEdge,
     Editor_isEmpty = slate_isEmpty S,
     Editor_unhangRange = (\<lambda>d r. r),
     Editor_delete = slate_delete,
     Editor_select = slate_select\<rparr>"

definition slate :: "slate_doc api" where
  "slate = slate_with by_property"

text \<open>An editor over a document tree, with no selection and nothing tracked.\<close>

definition new_editor :: "node list \<Rightarrow> slate_doc editor" where
  "new_editor cs =
     \<lparr>doc = \<lparr>tree = cs, sel = None, pathRefs = [], pointRefs = [], rangeRefs = []\<rparr>,
      operations = [], normalizing = True\<rparr>"

section \<open>Specification-side definitions\<close>

text \<open>
  The object the specification describes for \<^verbatim>\<open>unsetNodes\<close>: every named property set
  to null, one key for each distinct name, in the order of first occurrence.
\<close>

definition null_props :: "string list \<Rightarrow> props" where
  "null_props names = map (\<lambda>k. (k, Null)) (rev (remdups (rev names)))"

text \<open>
  The property delta the specification describes for \<^verbatim>\<open>setNodes\<close>: the requested keys,
  other than the two structural ones, whose value differs from the node's current one
  (under \<^verbatim>\<open>!==\<close>), with the new values and with the old ones.
\<close>

definition differing :: "props \<Rightarrow> node \<Rightarrow> props" where
  "differing props n =
     filter (\<lambda>(k, v). k \<noteq> ''children'' \<and> k \<noteq> ''text'' \<and> strict_neq v (js_get (node_props n) k))
       props"

definition old_values :: "props \<Rightarrow> node \<Rightarrow> props" where
  "old_values props n = map (\<lambda>(k, v). (k, js_get (node_props n) k)) (differing props n)"

definition set_node_ops :: "props \<Rightarrow> node_entry \<Rightarrow> operation list" where
  "set_node_ops props entry =
     (if snd entry \<noteq> [] \<and> differing props (fst entry) \<noteq> []
      then [Set_node (snd entry) (old_values props (fst entry)) (differing props (fst entry))]
      else [])"

text \<open>Every operation of a list is a \<^verbatim>\<open>move_node\<close> whose source is not the Root.\<close>

definition root_free_moves :: "operation list \<Rightarrow> bool" where
  "root_free_moves ops = (\<forall>op \<in> set ops. \<exists>p np. op = Move_node p np \<and> p \<noteq> [])"


text \<open>The error an outcome carries, if it is a throw.\<close>

fun thrown :: "'s outcome \<Rightarrow> error option" where
  "thrown (Returned s) = None"
| "thrown (Threw e s) = Some e"

text \<open>
  An outcome is plain when it is a return, or a throw of one of the errors of the
  collaborators (a null reference, a path without parent or next sibling, a path that
  addresses no node): it is neither of the two errors the transforms raise themselves.
\<close>

definition plain :: "'s outcome \<Rightarrow> bool" where
  "plain r = (thrown r \<in> {None, Some TypeError, Some PathError, Some NodeError})"

text \<open>
  The paths that an invocation of \<^verbatim>\<open>liftNodes\<close> resolves for its matches, in the order
  of the loop (none when the transform ends before the loop).
\<close>

definition liftNodes_paths :: "'d api \<Rightarrow> options \<Rightarrow> 'd editor \<Rightarrow> path option list" where
  "liftNodes_paths E opts ed =
     (case liftNodes_pathRefs E opts (ed\<lparr>normalizing := False\<rparr>) of
        Inl r \<Rightarrow> []
      | Inr (voids, refs, ed1) \<Rightarrow> liftNodes_resolved E voids refs ed1)"


text \<open>
  What a transform nested in an open batch does to the log: it appends operations that
  satisfy \<open>P\<close>, and the batch stays open.
\<close>

definition appends :: "(operation list \<Rightarrow> bool) \<Rightarrow> 'd editor \<Rightarrow> 'd editor outcome \<Rightarrow> bool" where
  "appends P ed r =
     (\<not> normalizing (final_state r)
        \<and> (\<exists>ops. operations (final_state r) = operations ed @ ops \<and> P ops))"

text \<open>The \<^verbatim>\<open>voids\<close> and \<^verbatim>\<open>mode\<close> options with their defaults.\<close>

definition mode_of :: "options \<Rightarrow> mode" where
  "mode_of opts = (case opt_mode opts of None \<Rightarrow> Highest | Some m \<Rightarrow> m)"

definition voids_of :: "options \<Rightarrow> bool" where
  "voids_of opts = (case opt_voids opts of None \<Rightarrow> False | Some v \<Rightarrow> v)"

section \<open>Example documents\<close>

text \<open>A paragraph holding an inline element and a text; the inline is empty in the second.\<close>

definition doc_inline_text :: "node list" where
  "doc_inline_text =
     [Element [(''type'', Str ''p'')] [Element [(''inline'', Bool True)] [Text [] ''x''], Text [] ''b'']]"


text \<open>An empty paragraph followed by a paragraph with bold text.\<close>

definition doc_empty_paragraph :: "node list" where
  "doc_empty_paragraph =
     [Element [(''type'', Str ''p'')] [Text [] ''''],
      Element [(''type'', Str ''p'')] [Text [(''bold'', Bool True)] ''b'']]"

text \<open>The options that give only a path as the location.\<close>

definition at_path :: "path \<Rightarrow> options" where
  "at_path p = no_options\<lparr>opt_at := Some (LPath p)\<rparr>"

text \<open>An editor whose batch is open, as inside \<^verbatim>\<open>Editor.withoutNormalizing\<close>.\<close>

definition open_batch :: "node list \<Rightarrow> slate_doc editor" where
  "open_batch cs = (new_editor cs)\<lparr>normalizing := False\<rparr>"


text \<open>A schema in which an element is void when it has exactly two children.\<close>

definition pair_void :: schema where
  "pair_void = \<lparr>inline_of = (\<lambda>n. False), void_of = (\<lambda>n. length (node_children n) = 2)\<rparr>"

text \<open>A paragraph with one text, and a void block with its empty text.\<close>

definition doc_one_text :: "node list" where
  "doc_one_text = [Element [(''type'', Str ''p'')] [Text [] ''ab'']]"

definition doc_void_block :: "node list" where
  "doc_void_block = [Element [(''void'', Bool True)] [Text [] '''']]"


definition doc_nested_paragraph :: "node list" where
  "doc_nested_paragraph =
     [Element [(''type'', Str ''p'')] [Text [] ''a''],
      Element [(''type'', Str ''section'')] [Element [(''type'', Str ''p'')] [Text [] ''b'']]]"

definition is_paragraph :: "node \<Rightarrow> bool" where
  "is_paragraph n = (map_of (node_props n) ''type'' = Some (Str ''p''))"

definition quote :: node where
  "quote = Element [(''type'', Str ''quote'')] [Text [] ''zz'']"

text \<open>A paragraph whose first text is bold already, and the request to make nodes bold.\<close>

definition doc_bold_plain :: "node list" where
  "doc_bold_plain = [Element [] [Text [(''bold'', Bool True)] ''a'', Text [] ''b'']]"

definition make_bold :: props where
  "make_bold = [(''bold'', Bool True), (''text'', Str ''x'')]"

definition every_node :: options where
  "every_node = no_options\<lparr>opt_at := Some (LPath []), opt_match := Some (MFun (\<lambda>n. True)),
                              opt_mode := Some All\<rparr>"





section \<open>Operations a transform adds to the log\<close>


lemma moveNodes_loop_ops:
  "\<exists>ops. operations (final_state (moveNodes_loop E toRef refs ed)) = operations ed @ ops
     \<and> root_free_moves ops"
proof (induction refs arbitrary: ed)
  case Nil
  show ?case by (simp add: root_free_moves_def)
next
  case (Cons r rs)
  obtain po d1 where u: "Editor_pathRef_unref E r (doc ed) = (po, d1)"
    by (cases "Editor_pathRef_unref E r (doc ed)")
  show ?case
  proof (cases po)
    case None
    with u show ?thesis by (simp add: root_free_moves_def)
  next
    case (Some p)
    let ?ed1 = "ed\<lparr>doc := d1\<rparr>"
    let ?mv = "Move_node p (Editor_pathRef_current E toRef d1)"
    let ?ed2 = "if p \<noteq> [] then editor_apply E ?mv ?ed1 else ?ed1"
    from Cons.IH[of ?ed2] obtain ops where
      o: "operations (final_state (moveNodes_loop E toRef rs ?ed2)) = operations ?ed2 @ ops"
         "root_free_moves ops"
      by blast
    show ?thesis
    proof (cases "p = []")
      case True
      with o u Some show ?thesis by (auto simp: Let_def)
    next
      case False
      with o u Some have "operations (final_state (moveNodes_loop E toRef (r # rs) ed))
         = operations ed @ (?mv # ops)"
        by (simp add: Let_def editor_apply_def)
      moreover have "root_free_moves (?mv # ops)"
        using o False by (simp add: root_free_moves_def)
      ultimately show ?thesis by blast
    qed
  qed
qed

lemma operations_and_then_doc:
  "operations (final_state (and_then r (\<lambda>s. Returned (s\<lparr>doc := g s\<rparr>))))
     = operations (final_state r)"
  by (cases r) simp_all

lemma moveNodes_body_ops:
  "\<exists>ops. operations (final_state (moveNodes_body E opts to ed)) = operations ed @ ops
     \<and> root_free_moves ops"
proof -
  have triv: "\<exists>ops. operations ed = operations ed @ ops \<and> root_free_moves ops"
    by (simp add: root_free_moves_def)
  show ?thesis
  proof (cases "at_or_selection E opts (doc ed)")
    case None
    then show ?thesis using triv by (simp add: moveNodes_body_def)
  next
    case at: (Some at')
    show ?thesis
    proof (cases "case opt_match opts of None \<Rightarrow> default_match E (doc ed) at' | Some m \<Rightarrow> Some m")
      case None
      with at show ?thesis using triv by (simp add: moveNodes_body_def)
    next
      case (Some match)
      let ?mode = "case opt_mode opts of None \<Rightarrow> Highest | Some m \<Rightarrow> m"
      let ?voids = "case opt_voids opts of None \<Rightarrow> False | Some v \<Rightarrow> v"
      obtain toRef d1 where a: "Editor_pathRef E to (doc ed) = (toRef, d1)"
        by (cases "Editor_pathRef E to (doc ed)")
      obtain prs d2 where
        b: "pathRefs_of E (Editor_nodes E d1 at' match ?mode ?voids) d1 = (prs, d2)"
        by (cases "pathRefs_of E (Editor_nodes E d1 at' match ?mode ?voids) d1")
      from moveNodes_loop_ops[of E toRef prs "ed\<lparr>doc := d2\<rparr>"] obtain ops where
        o: "operations (final_state (moveNodes_loop E toRef prs (ed\<lparr>doc := d2\<rparr>)))
              = operations ed @ ops"
           "root_free_moves ops" by auto
      have "operations (final_state (moveNodes_body E opts to ed)) = operations ed @ ops"
        using at Some a b o(1)
        by (simp add: moveNodes_body_def Let_def operations_and_then_doc)
      with o(2) show ?thesis by blast
    qed
  qed
qed



subsection \<open>The object built by unsetNodes\<close>

lemma update_fresh: "k \<notin> fst ` set al \<Longrightarrow> AList.update k v al = al @ [(k, v)]"
  by (induction al) auto

lemma remdups_snoc: "remdups (xs @ [k]) = remdups (filter ((\<noteq>) k) xs) @ [k]"
  by (induction xs) auto

lemma first_occurrence_Cons:
  "rev (remdups (rev (k # ks))) = k # removeAll k (rev (remdups (rev ks)))"
proof -
  have "remdups (rev ks @ [k]) = remdups (filter ((\<noteq>) k) (rev ks)) @ [k]"
    by (rule remdups_snoc)
  also have "remdups (filter ((\<noteq>) k) (rev ks)) = filter ((\<noteq>) k) (remdups (rev ks))"
    by (simp add: remdups_filter)
  finally show ?thesis by (simp add: removeAll_filter_not_eq rev_filter)
qed

lemma unsetNodes_obj_append:
  "\<forall>(k, v) \<in> set obj. v = Null \<Longrightarrow>
   unsetNodes_obj ks obj =
     obj @ map (\<lambda>k. (k, Null)) (filter (\<lambda>k. k \<notin> fst ` set obj) (rev (remdups (rev ks))))"
proof (induction ks arbitrary: obj)
  case Nil
  show ?case by simp
next
  case (Cons k ks)
  let ?f = "rev (remdups (rev ks))"
  show ?case
  proof (cases "k \<in> fst ` set obj")
    case True
    then obtain v where "(k, v) \<in> set obj" by auto
    with Cons.prems have kv: "(k, Null) \<in> set obj" by auto
    have "map_of obj k = Some Null"
    proof -
      from True obtain w where w: "map_of obj k = Some w"
        by (metis domD dom_map_of_conv_image_fst)
      then have "(k, w) \<in> set obj" by (rule map_of_SomeD)
      with Cons.prems have "w = Null" by auto
      with w show ?thesis by simp
    qed
    then have u: "AList.update k Null obj = obj" by (rule update_triv)
    have "filter (\<lambda>x. x \<notin> fst ` set obj) (k # removeAll k ?f) = filter (\<lambda>x. x \<notin> fst ` set obj) ?f"
      using True by (auto simp: removeAll_filter_not_eq intro: filter_cong)
    with Cons.IH[OF Cons.prems] u show ?thesis
      by (simp only: unsetNodes_obj.simps first_occurrence_Cons)
  next
    case False
    then have u: "AList.update k Null obj = obj @ [(k, Null)]" by (rule update_fresh)
    have p: "\<forall>(k, v) \<in> set (obj @ [(k, Null)]). v = Null" using Cons.prems by auto
    have "filter (\<lambda>x. x \<notin> fst ` set (obj @ [(k, Null)])) ?f
            = filter (\<lambda>x. x \<notin> fst ` set obj) (removeAll k ?f)"
      by (auto simp: removeAll_filter_not_eq intro: filter_cong)
    with Cons.IH[OF p] u False show ?thesis
      by (simp add: first_occurrence_Cons del: remdups.simps rev.simps)
  qed
qed

lemma unsetNodes_obj_null_props: "unsetNodes_obj names [] = null_props names"
  using unsetNodes_obj_append[of "[]" names] by (simp add: null_props_def)


subsection \<open>The property delta of setNodes\<close>

lemma setNodes_delta_append:
  "distinct (map fst props) \<Longrightarrow> fst ` set props \<inter> fst ` set acc1 = {} \<Longrightarrow>
   fst ` set props \<inter> fst ` set acc2 = {} \<Longrightarrow>
   setNodes_delta props n (acc1, acc2) = (acc1 @ old_values props n, acc2 @ differing props n)"
proof (induction props arbitrary: acc1 acc2)
  case Nil
  show ?case by (simp add: old_values_def differing_def)
next
  case (Cons kv props)
  obtain k v where kv: "kv = (k, v)" by (cases kv)
  from Cons.prems kv have d: "distinct (map fst props)" and nk: "k \<notin> fst ` set props"
    and f1: "k \<notin> fst ` set acc1" and f2: "k \<notin> fst ` set acc2"
    and i1: "fst ` set props \<inter> fst ` set acc1 = {}" and i2: "fst ` set props \<inter> fst ` set acc2 = {}"
    by auto
  show ?case
  proof (cases "k \<noteq> ''children'' \<and> k \<noteq> ''text'' \<and> strict_neq v (js_get (node_props n) k)")
    case True
    let ?a1 = "acc1 @ [(k, js_get (node_props n) k)]" and ?a2 = "acc2 @ [(k, v)]"
    have j1: "fst ` set props \<inter> fst ` set ?a1 = {}" using i1 nk by auto
    have j2: "fst ` set props \<inter> fst ` set ?a2 = {}" using i2 nk by auto
    from Cons.IH[OF d j1 j2] True f1 f2 kv show ?thesis
      by (simp add: update_fresh old_values_def differing_def)
  next
    case False
    with Cons.IH[OF d i1 i2] kv show ?thesis
      by (auto simp: old_values_def differing_def)
  qed
qed

lemma setNodes_step_ops:
  "distinct (map fst props) \<Longrightarrow>
   operations (setNodes_step E props entry ed) = operations ed @ set_node_ops props entry"
  by (cases entry)
     (simp add: setNodes_step_def set_node_ops_def setNodes_delta_append editor_apply_def)


subsection \<open>Errors of the nested transforms\<close>

lemma plain_simps [simp]:
  "plain (Returned s)" "plain (Threw TypeError s)" "plain (Threw PathError s)"
  "plain (Threw NodeError s)"
  by (simp_all add: plain_def)

lemma plain_and_then: "plain r \<Longrightarrow> (\<And>s. plain (f s)) \<Longrightarrow> plain (and_then r f)"
  by (cases r) (simp_all add: plain_def)

lemma plain_withoutNormalizing: "(\<And>s. plain (fn s)) \<Longrightarrow> plain (withoutNormalizing E fn ed)"
  by (simp add: withoutNormalizing_def Let_def plain_and_then)

lemma plain_moveNodes_loop: "plain (moveNodes_loop E toRef refs ed)"
  by (induction refs arbitrary: ed) (auto simp: Let_def split: prod.splits option.splits)

lemma plain_moveNodes_body: "plain (moveNodes_body E opts to ed)"
  by (auto simp: moveNodes_body_def Let_def plain_moveNodes_loop
      intro!: plain_and_then split: option.splits prod.splits)

lemma plain_moveNodes: "plain (moveNodes E opts to ed)"
  by (simp add: moveNodes_def plain_withoutNormalizing plain_moveNodes_body)

lemma plain_removeNodes_loop: "plain (removeNodes_loop E refs ed)"
  by (induction refs arbitrary: ed) (auto simp: Let_def split: prod.splits option.splits)

lemma plain_removeNodes_body: "plain (removeNodes_body E opts ed)"
  by (auto simp: removeNodes_body_def Let_def plain_removeNodes_loop
      split: option.splits prod.splits location.splits)

lemma plain_removeNodes_at: "plain (removeNodes_at E at' voids ed)"
  by (cases at')
     (simp_all add: removeNodes_at_def removeNodes_def plain_withoutNormalizing plain_removeNodes_body)

lemma plain_insertNodes_at_path: "plain (insertNodes_at_path E nodes at' voids select ed)"
  by (auto simp: insertNodes_at_path_def Let_def split: option.splits)

lemma plain_splitNodes_loop:
  "plain (splitNodes_loop E voids always beforeRef highestPath position target levels ed)"
  by (induction levels arbitrary: position target ed)
     (auto simp: Let_def split: option.splits)

lemma nested_insert_throw:
  "withoutNormalizing E (insertNodes_at_path E ns p voids select) ed = Threw e ed'
     \<Longrightarrow> plain (Threw e ed')"
  using plain_withoutNormalizing[of "insertNodes_at_path E ns p voids select" E ed,
      OF plain_insertNodes_at_path]
  by (simp add: plain_def)

lemma splitNodes_void_errors:
  "splitNodes_void E voids at' height always ed = Inl (e, ed') \<Longrightarrow> plain (Threw e ed')"
  by (auto simp: splitNodes_void_def Let_def
      split: option.splits if_splits prod.splits sum.splits outcome.splits
      dest: nested_insert_throw)

lemma plain_splitNodes_at_point:
  "plain (splitNodes_at_point E at_given voids match height always at' ed)"
  unfolding splitNodes_at_point_def Let_def
  by (auto split: prod.splits option.splits sum.splits
      intro!: plain_and_then plain_splitNodes_loop dest: splitNodes_void_errors)

lemma plain_splitNodes_body: "plain (splitNodes_body E opts ed)"
  unfolding splitNodes_body_def Let_def
  by (auto split: option.splits location.splits prod.splits intro: plain_splitNodes_at_point)

lemma plain_splitNodes: "plain (splitNodes E opts ed)"
  by (simp add: splitNodes_def plain_withoutNormalizing plain_splitNodes_body)

lemma plain_liftNodes_step: "plain (liftNodes_step E voids p ed)"
  unfolding liftNodes_step_def Let_def liftNodes_move_def
  by (auto split: option.splits
      intro!: plain_and_then plain_moveNodes plain_removeNodes_at plain_splitNodes)


subsection \<open>The depth error of liftNodes\<close>

lemma plain_not_lift: "plain r \<Longrightarrow> r \<noteq> Threw (LiftDepthError p) s"
  by (auto simp: plain_def)

lemma liftNodes_loop_throws:
  "(\<exists>ed'. liftNodes_loop E voids refs ed = Threw (LiftDepthError p) ed')
     \<longleftrightarrow> (Some p \<in> set (liftNodes_resolved E voids refs ed) \<and> length p < 2)"
proof (induction refs arbitrary: ed)
  case Nil
  show ?case by simp
next
  case (Cons r rs)
  obtain qo d1 where u: "Editor_pathRef_unref E r (doc ed) = (qo, d1)"
    by (cases "Editor_pathRef_unref E r (doc ed)")
  show ?case
  proof (cases qo)
    case None
    with u show ?thesis by simp
  next
    case (Some q)
    show ?thesis
    proof (cases "length q < 2")
      case True
      with u Some show ?thesis by auto
    next
      case False
      show ?thesis
      proof (cases "liftNodes_step E voids q (ed\<lparr>doc := d1\<rparr>)")
        case (Returned ed2)
        with u Some False Cons.IH[of ed2] show ?thesis by auto
      next
        case (Threw e ed2)
        with plain_liftNodes_step[of E voids q "ed\<lparr>doc := d1\<rparr>"]
        have "\<And>p'. e \<noteq> LiftDepthError p'" by (auto simp: plain_def)
        with u Some False Threw show ?thesis by auto
      qed
    qed
  qed
qed

lemma withoutNormalizing_throws:
  "(\<exists>ed'. withoutNormalizing E fn ed = Threw e ed')
     \<longleftrightarrow> (\<exists>ed'. fn (ed\<lparr>normalizing := False\<rparr>) = Threw e ed')"
  by (cases "fn (ed\<lparr>normalizing := False\<rparr>)") (simp_all add: withoutNormalizing_def Let_def)


subsection \<open>Operations of transforms nested in an open batch\<close>






lemma appends_doc: "\<not> normalizing ed \<Longrightarrow> P [] \<Longrightarrow> appends P ed (Returned (ed\<lparr>doc := d\<rparr>))"
  by (simp add: appends_def)








subsection \<open>mergeNodes\<close>

lemma Path_next_Some: "p \<noteq> [] \<Longrightarrow> \<exists>q. Path_next p = Some q"
  by (simp add: Path_next_def)




subsection \<open>The void guard of insertNodes\<close>

lemma insertNodes_resolve_path:
  "opt_at opts = Some (LPath q) \<Longrightarrow> insertNodes_resolve E nodes opts ed = Inr (q, False, ed)"
  by (simp add: insertNodes_resolve_def insertNodes_default_at_def insertNodes_range_def Let_def)

lemma insertNodes_resolve_point:
  "opt_at opts = Some (LPoint pt) \<Longrightarrow>
   insertNodes_resolve E nodes opts ed
     = (case insertNodes_point E (hd nodes) (opt_match opts) pt ed of
          Inl r \<Rightarrow> Inl r
        | Inr (p, ed2) \<Rightarrow> Inr (p, False, ed2))"
  by (simp add: insertNodes_resolve_def insertNodes_default_at_def insertNodes_range_def Let_def)

subsection \<open>The log of the setNodes loop\<close>

lemma setNodes_loop_ops:
  "distinct (map fst props) \<Longrightarrow>
   operations (setNodes_loop E props entries ed)
     = operations ed @ concat (map (set_node_ops props) entries)"
proof (induction entries arbitrary: ed)
  case Nil
  show ?case by simp
next
  case (Cons e es)
  from Cons.IH[OF Cons.prems, of "setNodes_step E props e ed"]
    setNodes_step_ops[OF Cons.prems, of E e ed]
  show ?case by simp
qed

lemma setNodes_location_plain:
  "\<forall>r. at0 \<noteq> LRange r \<Longrightarrow> setNodes_location E opts match at0 ed = Inr (Some at0, ed)"
  by (cases at0) (simp_all add: setNodes_location_def Let_def)


subsection \<open>The removal of the predecessor in mergeNodes\<close>






section \<open>Claims\<close>

text \<open>
  C10. Whatever the options and the state, the operations that the body of
  \<^verbatim>\<open>moveNodes\<close> adds to the log never include a \<^verbatim>\<open>move_node\<close> whose source path is the
  empty (Root) path: a reference that resolves to the Root is skipped by the guard
  \<^verbatim>\<open>path.length !== 0\<close>, so the Root is never relocated.
\<close>

theorem moveNodes_never_moves_root:
  "\<exists>ops. operations (final_state (moveNodes_body E opts to ed)) = operations ed @ ops
     \<and> (\<forall>np. Move_node [] np \<notin> set ops)"
proof -
  from moveNodes_body_ops[of E opts to ed] obtain ops where
    o: "operations (final_state (moveNodes_body E opts to ed)) = operations ed @ ops"
       "root_free_moves ops" by blast
  from o(2) have "\<forall>np. Move_node [] np \<notin> set ops"
    by (auto simp: root_free_moves_def)
  with o(1) show ?thesis by blast
qed

text \<open>
  C9. For every list of property names and every options value, \<^verbatim>\<open>unsetNodes\<close> is
  \<^verbatim>\<open>setNodes\<close> called with the object that maps each name to null: the two calls have
  the same outcome, hence the same final editor state and the same operation log.
\<close>

theorem unsetNodes_is_setNodes_null:
  "unsetNodes E names opts ed = setNodes E (null_props names) opts ed"
  by (simp add: unsetNodes_def unsetNodes_obj_null_props)



text \<open>
  C7. Take an invocation of \<^verbatim>\<open>setNodes\<close> with \<open>props\<close> an object (its keys are distinct)
  that resolves a location and a match and reaches its loop with the location \<open>at2\<close> in
  the editor \<open>ed1\<close> (for a location that is not a range, these are the location given and
  the editor as the batch opened it). Then the transform returns, and what it adds to
  the log is, for each match that \<^verbatim>\<open>Editor.nodes\<close> resolves, in order: one \<^verbatim>\<open>set_node\<close>
  exactly when the path of the match is not the Root and some requested key other than
  \<open>children\<close> and \<open>text\<close> has a value that differs (under \<^verbatim>\<open>!==\<close>) from the node's
  current one, and nothing otherwise. That operation carries exactly the differing keys,
  with the node's old values in \<open>properties\<close> and the requested values in
  \<open>newProperties\<close>.
\<close>

theorem setNodes_emits_exact_delta:
  assumes d: "distinct (map fst props)"
    and at: "at_or_selection E opts (doc ed) = Some at0"
    and m: "(case opt_match opts of None \<Rightarrow> default_match E (doc ed) at0 | Some m \<Rightarrow> Some m)
              = Some match"
    and loc: "setNodes_location E opts match at0 (ed\<lparr>normalizing := False\<rparr>) = Inr (Some at2, ed1)"
  shows "\<exists>ed'. setNodes_body E props opts (ed\<lparr>normalizing := False\<rparr>) = Returned ed'
           \<and> operations ed'
               = operations ed1
                 @ concat (map (set_node_ops props)
                     (Editor_nodes E (doc ed1) at2 match (mode_of opts) (voids_of opts)))
           \<and> setNodes E props opts ed
               = Returned (if normalizing ed then Editor_normalize E (ed'\<lparr>normalizing := True\<rparr>)
                           else ed'\<lparr>normalizing := False\<rparr>)
           \<and> ((\<forall>r. at0 \<noteq> LRange r) \<longrightarrow> at2 = at0 \<and> ed1 = ed\<lparr>normalizing := False\<rparr>)"
proof -
  let ?ed0 = "ed\<lparr>normalizing := False\<rparr>"
  let ?es = "Editor_nodes E (doc ed1) at2 match (mode_of opts) (voids_of opts)"
  let ?ed' = "setNodes_loop E props ?es ed1"
  have b: "setNodes_body E props opts ?ed0 = Returned ?ed'"
    using at m loc
    by (cases "opt_match opts") (simp_all add: setNodes_body_def Let_def mode_of_def voids_of_def)
  have o: "operations ?ed' = operations ed1 @ concat (map (set_node_ops props) ?es)"
    by (rule setNodes_loop_ops[OF d])
  have t: "setNodes E props opts ed
             = Returned (if normalizing ed then Editor_normalize E (?ed'\<lparr>normalizing := True\<rparr>)
                         else ?ed'\<lparr>normalizing := False\<rparr>)"
    using b by (simp add: setNodes_def withoutNormalizing_def Let_def)
  have p: "(\<forall>r. at0 \<noteq> LRange r) \<longrightarrow> at2 = at0 \<and> ed1 = ?ed0"
    using loc setNodes_location_plain[of at0 E opts match ?ed0] by auto
  from b o t p show ?thesis by blast
qed

theorem setNodes_emits_exact_delta_witness:
  "distinct (map fst make_bold)
   \<and> at_or_selection slate every_node (doc (new_editor doc_bold_plain)) = Some (LPath [])
   \<and> setNodes_location slate every_node (MFun (\<lambda>n. True)) (LPath [])
         ((new_editor doc_bold_plain)\<lparr>normalizing := False\<rparr>)
       = Inr (Some (LPath []), open_batch doc_bold_plain)
   \<and> (\<exists>ed'. setNodes_body slate make_bold every_node ((new_editor doc_bold_plain)\<lparr>normalizing := False\<rparr>)
               = Returned ed'
             \<and> operations ed'
                 = [Set_node [0] [(''bold'', Undefined)] [(''bold'', Bool True)],
                    Set_node [0, 1] [(''bold'', Undefined)] [(''bold'', Bool True)]]
             \<and> setNodes slate make_bold every_node (new_editor doc_bold_plain)
                 = Returned (ed'\<lparr>normalizing := True\<rparr>))"
proof -
  have h1: "distinct (map fst make_bold)" by code_simp
  have h2: "at_or_selection slate every_node (doc (new_editor doc_bold_plain)) = Some (LPath [])"
    by code_simp
  have h3: "(case opt_match every_node of
               None \<Rightarrow> default_match slate (doc (new_editor doc_bold_plain)) (LPath [])
             | Some m \<Rightarrow> Some m) = Some (MFun (\<lambda>n. True))"
    by (simp add: every_node_def)
  have h4: "setNodes_location slate every_node (MFun (\<lambda>n. True)) (LPath [])
              ((new_editor doc_bold_plain)\<lparr>normalizing := False\<rparr>)
            = Inr (Some (LPath []), open_batch doc_bold_plain)"
    by code_simp
  have e: "operations (open_batch doc_bold_plain)
             @ concat (map (set_node_ops make_bold)
                 (Editor_nodes slate (doc (open_batch doc_bold_plain)) (LPath [])
                    (MFun (\<lambda>n. True)) (mode_of every_node) (voids_of every_node)))
           = [Set_node [0] [(''bold'', Undefined)] [(''bold'', Bool True)],
              Set_node [0, 1] [(''bold'', Undefined)] [(''bold'', Bool True)]]"
    by code_simp
  have n: "normalizing (new_editor doc_bold_plain)" by code_simp
  have i: "Editor_normalize slate = (\<lambda>ed. ed)" by (simp add: slate_def slate_with_def)
  from setNodes_emits_exact_delta[OF h1 h2 h3 h4] obtain ed' where
    "setNodes_body slate make_bold every_node ((new_editor doc_bold_plain)\<lparr>normalizing := False\<rparr>)
       = Returned ed'"
    "operations ed'
       = operations (open_batch doc_bold_plain)
         @ concat (map (set_node_ops make_bold)
             (Editor_nodes slate (doc (open_batch doc_bold_plain)) (LPath [])
                (MFun (\<lambda>n. True)) (mode_of every_node) (voids_of every_node)))"
    "setNodes slate make_bold every_node (new_editor doc_bold_plain)
       = Returned (if normalizing (new_editor doc_bold_plain)
                   then Editor_normalize slate (ed'\<lparr>normalizing := True\<rparr>)
                   else ed'\<lparr>normalizing := False\<rparr>)"
    by blast
  with e n i h1 h2 h4 show ?thesis by auto
qed

text \<open>
  C5. An invocation of \<^verbatim>\<open>liftNodes\<close> throws the depth error for a path \<open>p\<close> exactly when
  \<open>p\<close> is one of the paths its loop resolves for the matches and \<open>p\<close> has length less
  than two. So a match resolved at depth less than two raises the error to the caller,
  and a match resolved at depth two or more never does.
\<close>

theorem liftNodes_depth_error:
  "(\<exists>ed'. liftNodes E opts ed = Threw (LiftDepthError p) ed')
     \<longleftrightarrow> (Some p \<in> set (liftNodes_paths E opts ed) \<and> length p < 2)"
proof -
  let ?ed0 = "ed\<lparr>normalizing := False\<rparr>"
  have "(\<exists>ed'. liftNodes_body E opts ?ed0 = Threw (LiftDepthError p) ed')
     \<longleftrightarrow> (Some p \<in> set (liftNodes_paths E opts ed) \<and> length p < 2)"
  proof (cases "liftNodes_pathRefs E opts ?ed0")
    case (Inl r)
    then have "r = Returned ?ed0 \<or> r = Threw NodeError ?ed0"
      by (auto simp: liftNodes_pathRefs_def Let_def split: option.splits prod.splits)
    with Inl show ?thesis by (auto simp: liftNodes_body_def liftNodes_paths_def)
  next
    case (Inr t)
    obtain voids refs ed1 where t: "t = (voids, refs, ed1)" by (cases t)
    with Inr liftNodes_loop_throws[of E voids refs ed1 p] show ?thesis
      by (simp add: liftNodes_body_def liftNodes_paths_def)
  qed
  then show ?thesis by (simp add: liftNodes_def withoutNormalizing_throws)
qed

theorem liftNodes_depth_error_witness:
  "(\<exists>ed'. liftNodes slate (no_options\<lparr>opt_at := Some (LPath [0])\<rparr>)
            (new_editor [Element [] [Text [] ''a'']]) = Threw (LiftDepthError [0]) ed')
   \<and> Some [0] \<in> set (liftNodes_paths slate (no_options\<lparr>opt_at := Some (LPath [0])\<rparr>)
                         (new_editor [Element [] [Text [] ''a'']]))
   \<and> length [0 :: nat] < 2"
proof -
  have a: "Some [0] \<in> set (liftNodes_paths slate (no_options\<lparr>opt_at := Some (LPath [0])\<rparr>)
                         (new_editor [Element [] [Text [] ''a'']]))"
    by code_simp
  have b: "length [0 :: nat] < 2" by simp
  from a b liftNodes_depth_error
    [of slate "no_options\<lparr>opt_at := Some (LPath [0])\<rparr>" "new_editor [Element [] [Text [] ''a'']]" "[0]"]
  show ?thesis by blast
qed

text \<open>
  C4. When \<^verbatim>\<open>mergeNodes\<close> has resolved a matched node and a predecessor, both off the
  Root, and one is a Text while the other is an Element, the transform throws the
  kind error to the caller; the log at the throw is the log as it was when the two
  entries were resolved, so no \<^verbatim>\<open>merge_node\<close>, move or removal of this invocation has
  been emitted.
\<close>

theorem mergeNodes_kind_error:
  assumes loc: "mergeNodes_locate E opts (ed\<lparr>normalizing := False\<rparr>)
                  = Inr (voids, Some (node, path), Some (prevNode, prevPath), ed1)"
    and ne: "path \<noteq> []" "prevPath \<noteq> []"
    and kinds: "(isText node \<and> isElement prevNode) \<or> (isElement node \<and> isText prevNode)"
  shows "\<exists>ed'. mergeNodes E opts ed = Threw (MergeKindError path node prevNode) ed'
           \<and> operations ed' = operations ed1"
proof -
  from ne(2) obtain newPath where np: "Path_next prevPath = Some newPath"
    using Path_next_Some by blast
  from kinds have k: "mergeNodes_position node prevNode = None"
    by (cases node; cases prevNode; simp add: mergeNodes_position_def)
  have "\<exists>ed'. mergeNodes_entries E voids (node, path) (prevNode, prevPath) ed1
           = Threw (MergeKindError path node prevNode) ed' \<and> operations ed' = operations ed1"
    using ne np k
    by (auto simp: mergeNodes_entries_def Let_def split: option.splits prod.splits)
  then show ?thesis
    using loc by (auto simp: mergeNodes_def withoutNormalizing_def Let_def mergeNodes_body_def)
qed

theorem mergeNodes_kind_error_witness:
  "mergeNodes_locate slate (at_path [0, 1]) ((new_editor doc_inline_text)\<lparr>normalizing := False\<rparr>)
     = Inr (False, Some (Text [] ''b'', [0, 1]),
            Some (Element [(''inline'', Bool True)] [Text [] ''x''], [0, 0]),
            open_batch doc_inline_text)
   \<and> (\<exists>ed'. mergeNodes slate (at_path [0, 1]) (new_editor doc_inline_text)
              = Threw (MergeKindError [0, 1] (Text [] ''b'')
                         (Element [(''inline'', Bool True)] [Text [] ''x''])) ed'
            \<and> operations ed' = operations (open_batch doc_inline_text))"
proof -
  have h: "mergeNodes_locate slate (at_path [0, 1]) ((new_editor doc_inline_text)\<lparr>normalizing := False\<rparr>)
     = Inr (False, Some (Text [] ''b'', [0, 1]),
            Some (Element [(''inline'', Bool True)] [Text [] ''x''], [0, 0]),
            open_batch doc_inline_text)"
    by code_simp
  from mergeNodes_kind_error[OF h] h show ?thesis by simp
qed







text \<open>
  C1, as stated, fails for a point that requires a split. In an editor whose schema
  makes an element void when it has two children, inserting a text at offset 1 of the
  only text of a paragraph splits that text first; the paragraph then has two children,
  the guard finds the insertion parent void and the transform returns: one
  \<^verbatim>\<open>split_node\<close> has been applied and the tree has changed, nothing has been inserted.
\<close>

theorem insertNodes_void_guard_counterexample:
  "insertNodes_point (slate_with pair_void) (Text [] ''x'') None (Point [0, 0] 1)
      (open_batch doc_one_text)
     = Inr ([0, 1],
            \<lparr>doc = \<lparr>tree = [Element [(''type'', Str ''p'')] [Text [] ''a'', Text [] ''b'']],
                     sel = None, pathRefs = [None],
                     pointRefs = [(None, Some Backward), (None, None)], rangeRefs = []\<rparr>,
             operations = [Split_node [0, 0] (Some 1) None []], normalizing = False\<rparr>)
   \<and> Editor_match (slate_with pair_void)
         \<lparr>tree = [Element [(''type'', Str ''p'')] [Text [] ''a'', Text [] ''b'']],
          sel = None, pathRefs = [None],
          pointRefs = [(None, Some Backward), (None, None)], rangeRefs = []\<rparr>
         [0] MVoid False
       = Some (Element [(''type'', Str ''p'')] [Text [] ''a'', Text [] ''b''], [0])
   \<and> operations (final_state (insertNodes (slate_with pair_void) [Text [] ''x'']
         (no_options\<lparr>opt_at := Some (LPoint (Point [0, 0] 1))\<rparr>) (new_editor doc_one_text)))
       = [Split_node [0, 0] (Some 1) None []]
   \<and> tree (doc (final_state (insertNodes (slate_with pair_void) [Text [] ''x'']
         (no_options\<lparr>opt_at := Some (LPoint (Point [0, 0] 1))\<rparr>) (new_editor doc_one_text))))
       = [Element [(''type'', Str ''p'')] [Text [] ''a'', Text [] ''b'']]
   \<and> tree (doc (new_editor doc_one_text)) = [Element [(''type'', Str ''p'')] [Text [] ''ab'']]"
  by code_simp

text \<open>
  C1, amended. Take an invocation of \<^verbatim>\<open>insertNodes\<close> with at least one node that resolves
  its location to the insertion path \<open>p\<close>, in the editor \<open>ed2\<close> that the deletion (for a
  range) and the split (for a point) have left. When the parent of \<open>p\<close> is inside a void
  container there and \<open>voids\<close> is not set, the transform returns with exactly that
  editor: no node is inserted and the selection is not moved, and what the deletion or
  the split applied stays. When the location supplied is a path, \<open>ed2\<close> is the editor as
  the batch opened it: the transform performs no operation and leaves the tree and the
  references as they were (it is the empty batch). When it is a point, \<open>p\<close> and \<open>ed2\<close>
  are the path and the editor that the point branch returned, after its call of
  \<^verbatim>\<open>splitNodes\<close>.
\<close>

theorem insertNodes_void_guard:
  assumes ne: "nodes \<noteq> []"
    and res: "insertNodes_resolve E nodes opts (ed\<lparr>normalizing := False\<rparr>) = Inr (p, select, ed2)"
    and pp: "Path_parent p = Some parentPath"
    and void: "Editor_match E (doc ed2) parentPath MVoid False \<noteq> None"
    and voids: "\<not> voids_of opts"
  shows "insertNodes_body E nodes opts (ed\<lparr>normalizing := False\<rparr>) = Returned ed2
         \<and> insertNodes E nodes opts ed
             = Returned (if normalizing ed then Editor_normalize E (ed2\<lparr>normalizing := True\<rparr>)
                         else ed2\<lparr>normalizing := False\<rparr>)
         \<and> (\<forall>q. opt_at opts = Some (LPath q) \<longrightarrow>
               q = p \<and> ed2 = ed\<lparr>normalizing := False\<rparr>
               \<and> insertNodes E nodes opts ed = withoutNormalizing E Returned ed)
         \<and> (\<forall>pt. opt_at opts = Some (LPoint pt) \<longrightarrow>
               insertNodes_point E (hd nodes) (opt_match opts) pt (ed\<lparr>normalizing := False\<rparr>)
                 = Inr (p, ed2))"
proof -
  let ?ed0 = "ed\<lparr>normalizing := False\<rparr>"
  have g: "insertNodes_at_path E nodes p False select ed2 = Returned ed2"
    using pp void by (simp add: insertNodes_at_path_def Let_def)
  have b: "insertNodes_body E nodes opts ?ed0 = Returned ed2"
    using ne res g voids by (simp add: insertNodes_body_def voids_of_def Let_def)
  have t: "insertNodes E nodes opts ed
             = Returned (if normalizing ed then Editor_normalize E (ed2\<lparr>normalizing := True\<rparr>)
                         else ed2\<lparr>normalizing := False\<rparr>)"
    using b by (simp add: insertNodes_def withoutNormalizing_def Let_def)
  have q: "\<forall>q. opt_at opts = Some (LPath q) \<longrightarrow>
               q = p \<and> ed2 = ?ed0 \<and> insertNodes E nodes opts ed = withoutNormalizing E Returned ed"
  proof (intro allI impI)
    fix q assume a: "opt_at opts = Some (LPath q)"
    from insertNodes_resolve_path[OF a, of E nodes ?ed0] res have e: "q = p" "ed2 = ?ed0" by simp_all
    with b have "insertNodes E nodes opts ed = withoutNormalizing E Returned ed"
      by (simp add: insertNodes_def withoutNormalizing_def Let_def)
    with e show "q = p \<and> ed2 = ?ed0 \<and> insertNodes E nodes opts ed = withoutNormalizing E Returned ed"
      by simp
  qed
  have s: "\<forall>pt. opt_at opts = Some (LPoint pt) \<longrightarrow>
               insertNodes_point E (hd nodes) (opt_match opts) pt ?ed0 = Inr (p, ed2)"
  proof (intro allI impI)
    fix pt assume a: "opt_at opts = Some (LPoint pt)"
    from insertNodes_resolve_point[OF a, of E nodes ?ed0] res
    show "insertNodes_point E (hd nodes) (opt_match opts) pt ?ed0 = Inr (p, ed2)"
      by (auto split: sum.splits)
  qed
  from b t q s show ?thesis by blast
qed

theorem insertNodes_void_guard_witness:
  "[Text [] ''x''] \<noteq> []
   \<and> insertNodes_resolve slate [Text [] ''x''] (at_path [0, 0])
         ((new_editor doc_void_block)\<lparr>normalizing := False\<rparr>)
       = Inr ([0, 0], False, open_batch doc_void_block)
   \<and> Path_parent [0, 0] = Some [0]
   \<and> Editor_match slate (doc (open_batch doc_void_block)) [0] MVoid False \<noteq> None
   \<and> \<not> voids_of (at_path [0, 0])
   \<and> insertNodes_body slate [Text [] ''x''] (at_path [0, 0])
         ((new_editor doc_void_block)\<lparr>normalizing := False\<rparr>)
       = Returned (open_batch doc_void_block)
   \<and> insertNodes slate [Text [] ''x''] (at_path [0, 0]) (new_editor doc_void_block)
       = withoutNormalizing slate Returned (new_editor doc_void_block)
   \<and> insertNodes_resolve (slate_with pair_void) [Text [] ''x'']
         (no_options\<lparr>opt_at := Some (LPoint (Point [0, 0] 1))\<rparr>)
         ((new_editor doc_one_text)\<lparr>normalizing := False\<rparr>)
       = Inr ([0, 1], False,
              \<lparr>doc = \<lparr>tree = [Element [(''type'', Str ''p'')] [Text [] ''a'', Text [] ''b'']],
                       sel = None, pathRefs = [None],
                       pointRefs = [(None, Some Backward), (None, None)], rangeRefs = []\<rparr>,
               operations = [Split_node [0, 0] (Some 1) None []], normalizing = False\<rparr>)
   \<and> insertNodes_body (slate_with pair_void) [Text [] ''x'']
         (no_options\<lparr>opt_at := Some (LPoint (Point [0, 0] 1))\<rparr>)
         ((new_editor doc_one_text)\<lparr>normalizing := False\<rparr>)
       = Returned
           \<lparr>doc = \<lparr>tree = [Element [(''type'', Str ''p'')] [Text [] ''a'', Text [] ''b'']],
                    sel = None, pathRefs = [None],
                    pointRefs = [(None, Some Backward), (None, None)], rangeRefs = []\<rparr>,
            operations = [Split_node [0, 0] (Some 1) None []], normalizing = False\<rparr>
   \<and> insertNodes_point (slate_with pair_void) (Text [] ''x'') None (Point [0, 0] 1)
         ((new_editor doc_one_text)\<lparr>normalizing := False\<rparr>)
       = Inr ([0, 1],
           \<lparr>doc = \<lparr>tree = [Element [(''type'', Str ''p'')] [Text [] ''a'', Text [] ''b'']],
                    sel = None, pathRefs = [None],
                    pointRefs = [(None, Some Backward), (None, None)], rangeRefs = []\<rparr>,
            operations = [Split_node [0, 0] (Some 1) None []], normalizing = False\<rparr>)"
proof -
  have h0: "[Text [] ''x''] \<noteq> []" by simp
  have h1: "insertNodes_resolve slate [Text [] ''x''] (at_path [0, 0])
              ((new_editor doc_void_block)\<lparr>normalizing := False\<rparr>)
            = Inr ([0, 0], False, open_batch doc_void_block)"
    by code_simp
  have h2: "Path_parent [0, 0] = Some [0]" by code_simp
  have h3: "Editor_match slate (doc (open_batch doc_void_block)) [0] MVoid False \<noteq> None"
    by code_simp
  have h4: "\<not> voids_of (at_path [0, 0])" by code_simp
  have h5: "opt_at (at_path [0, 0]) = Some (LPath [0, 0])" by code_simp
  have k1: "insertNodes_resolve (slate_with pair_void) [Text [] ''x'']
         (no_options\<lparr>opt_at := Some (LPoint (Point [0, 0] 1))\<rparr>)
         ((new_editor doc_one_text)\<lparr>normalizing := False\<rparr>)
       = Inr ([0, 1], False,
              \<lparr>doc = \<lparr>tree = [Element [(''type'', Str ''p'')] [Text [] ''a'', Text [] ''b'']],
                       sel = None, pathRefs = [None],
                       pointRefs = [(None, Some Backward), (None, None)], rangeRefs = []\<rparr>,
               operations = [Split_node [0, 0] (Some 1) None []], normalizing = False\<rparr>)"
    by code_simp
  have k2: "Path_parent [0, 1] = Some [0]" by code_simp
  have k3: "Editor_match (slate_with pair_void)
              (doc \<lparr>doc = \<lparr>tree = [Element [(''type'', Str ''p'')] [Text [] ''a'', Text [] ''b'']],
                       sel = None, pathRefs = [None],
                       pointRefs = [(None, Some Backward), (None, None)], rangeRefs = []\<rparr>,
               operations = [Split_node [0, 0] (Some 1) None []], normalizing = False\<rparr>)
              [0] MVoid False \<noteq> None"
    by code_simp
  have k4: "\<not> voids_of (no_options\<lparr>opt_at := Some (LPoint (Point [0, 0] 1))\<rparr>)" by code_simp
  from insertNodes_void_guard[OF h0 h1 h2 h3 h4] h5
  have a: "insertNodes_body slate [Text [] ''x''] (at_path [0, 0])
             ((new_editor doc_void_block)\<lparr>normalizing := False\<rparr>)
           = Returned (open_batch doc_void_block)"
    and b: "insertNodes slate [Text [] ''x''] (at_path [0, 0]) (new_editor doc_void_block)
           = withoutNormalizing slate Returned (new_editor doc_void_block)"
    by blast+
  have k5: "opt_at (no_options\<lparr>opt_at := Some (LPoint (Point [0, 0] 1))\<rparr>)
              = Some (LPoint (Point [0, 0] 1))"
    by code_simp
  from insertNodes_void_guard[OF h0 k1 k2 k3 k4] k5
  have c: "insertNodes_body (slate_with pair_void) [Text [] ''x'']
         (no_options\<lparr>opt_at := Some (LPoint (Point [0, 0] 1))\<rparr>)
         ((new_editor doc_one_text)\<lparr>normalizing := False\<rparr>)
       = Returned
           \<lparr>doc = \<lparr>tree = [Element [(''type'', Str ''p'')] [Text [] ''a'', Text [] ''b'']],
                    sel = None, pathRefs = [None],
                    pointRefs = [(None, Some Backward), (None, None)], rangeRefs = []\<rparr>,
            operations = [Split_node [0, 0] (Some 1) None []], normalizing = False\<rparr>"
    by blast
  have k6: "opt_match (no_options\<lparr>opt_at := Some (LPoint (Point [0, 0] 1))\<rparr>) = None"
    by code_simp
  from insertNodes_void_guard[OF h0 k1 k2 k3 k4] k5 k6
  have d: "insertNodes_point (slate_with pair_void) (Text [] ''x'') None (Point [0, 0] 1)
         ((new_editor doc_one_text)\<lparr>normalizing := False\<rparr>)
       = Inr ([0, 1],
           \<lparr>doc = \<lparr>tree = [Element [(''type'', Str ''p'')] [Text [] ''a'', Text [] ''b'']],
                    sel = None, pathRefs = [None],
                    pointRefs = [(None, Some Backward), (None, None)], rangeRefs = []\<rparr>,
            operations = [Split_node [0, 0] (Some 1) None []], normalizing = False\<rparr>)"
    by simp
  from h0 h1 h2 h3 h4 k1 a b c d show ?thesis by blast
qed

text \<open>
  C3. The code at an input where the claim fails. The matched paragraph \<open>[1, 0]\<close> is the
  only child of its section \<open>[1]\<close>, its predecessor is the paragraph \<open>[0]\<close>. The section
  is tracked and removed, but its \<^verbatim>\<open>remove_node\<close> is logged after the \<^verbatim>\<open>move_node\<close> and
  before the \<^verbatim>\<open>merge_node\<close>, not after it.
\<close>

theorem mergeNodes_removes_before_merge:
  "mergeNodes_locate slate
      (no_options\<lparr>opt_at := Some (LPoint (Point [1, 0, 0] 0)), opt_match := Some (MFun is_paragraph)\<rparr>)
      (open_batch doc_nested_paragraph)
     = Inr (False, Some (Element [(''type'', Str ''p'')] [Text [] ''b''], [1, 0]),
            Some (Element [(''type'', Str ''p'')] [Text [] ''a''], [0]),
            open_batch doc_nested_paragraph)
   \<and> operations (final_state (mergeNodes slate
        (no_options\<lparr>opt_at := Some (LPoint (Point [1, 0, 0] 0)), opt_match := Some (MFun is_paragraph)\<rparr>)
        (new_editor doc_nested_paragraph)))
     = [Move_node [1, 0] (Some [1]),
        Remove_node [2] (Element [(''type'', Str ''section'')] []),
        Merge_node [1] 1 None [(''type'', Str ''p'')]]
   \<and> tree (doc (final_state (mergeNodes slate
        (no_options\<lparr>opt_at := Some (LPoint (Point [1, 0, 0] 0)), opt_match := Some (MFun is_paragraph)\<rparr>)
        (new_editor doc_nested_paragraph))))
     = [Element [(''type'', Str ''p'')] [Text [] ''a'', Text [] ''b'']]"
  by code_simp

text \<open>
  C8. The code at an input where the claim fails. The matches are the paragraph \<open>[0]\<close>
  and the paragraph \<open>[1, 0]\<close> inside a section; their lowest common ancestor is the
  Root. The wrapper is created with no children and inserted once, at depth one, but at
  \<open>[1]\<close>: this is the index of the section that holds the last match, not the position
  after it (\<open>[2]\<close>, or \<open>[1, 1]\<close> after the match itself), and the section stays outside the
  wrapper.
\<close>

theorem wrapNodes_wrapper_before_last_match:
  "Editor_nodes slate (doc (new_editor doc_nested_paragraph))
      (LRange (MkRange (Point [0, 0] 0) (Point [1, 0, 0] 1))) (MFun is_paragraph) Highest False
     = [(Element [(''type'', Str ''p'')] [Text [] ''a''], [0]),
        (Element [(''type'', Str ''p'')] [Text [] ''b''], [1, 0])]
   \<and> wrapNodes_commonPath [0] [1, 0] = Some []
   \<and> wrapNodes_wrapperPath [] [1, 0] = Some [1]
   \<and> Path_next [1, 0] = Some [1, 1]
   \<and> Path_next [1] = Some [2]
   \<and> operations (final_state (wrapNodes slate quote
        (no_options\<lparr>opt_at := Some (LRange (MkRange (Point [0, 0] 0) (Point [1, 0, 0] 1))),
                     opt_match := Some (MFun is_paragraph)\<rparr>)
        (new_editor doc_nested_paragraph)))
     = [Insert_node [1] (Element [(''type'', Str ''quote'')] []),
        Move_node [0] (Some [1, 0])]
   \<and> tree (doc (final_state (wrapNodes slate quote
        (no_options\<lparr>opt_at := Some (LRange (MkRange (Point [0, 0] 0) (Point [1, 0, 0] 1))),
                     opt_match := Some (MFun is_paragraph)\<rparr>)
        (new_editor doc_nested_paragraph))))
     = [Element [(''type'', Str ''quote'')] [Element [(''type'', Str ''p'')] [Text [] ''a'']],
        Element [(''type'', Str ''section'')] [Element [(''type'', Str ''p'')] [Text [] ''b'']]]"
  by code_simp

end
